theory Spec2Isabelle
  imports Complex_Main "HOL-Library.Multiset"
begin

text \<open>
  A model of the market data proxy of \<open>server/index.js\<close>: the fetchers of the metals,
  equity index, news and historical sources with their shared cache, and the handlers
  of the HTTP routes. A fetcher is a function of the configuration, of what its awaited
  call settles to, of the clock and of the cache; it returns its result, or the error
  it throws, together with the cache it leaves. The properties of the design are proved
  after the definitions.
\<close>

section \<open>JavaScript numbers\<close>

text \<open>
  The server computes with JavaScript numbers: IEEE 754 binary64 values. A number is
  a finite rational, one of the two infinities, or NaN. Every arithmetic operation
  computes the exact result and rounds it to the nearest binary64 value, ties to even
  (\<open>rd\<close>): 53 significant bits, exponents down to the subnormal step \<open>2^-1074\<close>,
  overflow to an infinity from \<open>2^1024\<close> on. The one simplification: negative zero is
  identified with zero, so a division by zero takes the sign of its numerator.
\<close>

datatype number = Fin rat | PInf | NInf | NaN

function bitlen :: "int \<Rightarrow> int" where
  "bitlen n = (if n \<le> 0 then 0 else 1 + bitlen (n div 2))"
  by pat_completeness auto
termination
  by (relation "measure nat") auto

declare bitlen.simps [simp del]

function pow2 :: "int \<Rightarrow> rat" where
  "pow2 e = (if e = 0 then 1 else if 0 < e then 2 * pow2 (e - 1) else pow2 (e + 1) / 2)"
  by pat_completeness auto
termination
  by (relation "measure (\<lambda>e. nat \<bar>e\<bar>)") auto

declare pow2.simps [simp del]

text \<open>\<open>ilog2 a\<close> is the binary exponent of a positive rational: \<open>2^k \<le> a < 2^(k+1)\<close>.\<close>

definition ilog2 :: "rat \<Rightarrow> int" where
  "ilog2 a = (if 1 \<le> a then bitlen \<lfloor>a\<rfloor> - 1 else - bitlen (\<lceil>1 / a\<rceil> - 1))"

definition round_half_even :: "rat \<Rightarrow> int" where
  "round_half_even q =
     (let f = \<lfloor>q\<rfloor>; r = q - of_int f
      in if r < 1 / 2 then f else if 1 / 2 < r then f + 1 else if even f then f else f + 1)"

definition rd :: "rat \<Rightarrow> number" where
  "rd x =
     (if x = 0 then Fin 0
      else let e = max (ilog2 \<bar>x\<bar> - 52) (- 1074);
               n = round_half_even (\<bar>x\<bar> / pow2 e)
           in if 1024 < e + bitlen n then (if 0 < x then PInf else NInf)
              else Fin ((if 0 < x then 1 else - 1) * of_int n * pow2 e))"

text \<open>A decimal literal of the source denotes the binary64 value nearest to it.\<close>

definition lit :: "rat \<Rightarrow> number" where
  "lit x = rd x"

fun js_mul :: "number \<Rightarrow> number \<Rightarrow> number" where
  "js_mul (Fin a) (Fin b) = rd (a * b)"
| "js_mul NaN y = NaN"
| "js_mul x NaN = NaN"
| "js_mul (Fin a) PInf = (if a = 0 then NaN else if 0 < a then PInf else NInf)"
| "js_mul (Fin a) NInf = (if a = 0 then NaN else if 0 < a then NInf else PInf)"
| "js_mul PInf (Fin b) = (if b = 0 then NaN else if 0 < b then PInf else NInf)"
| "js_mul NInf (Fin b) = (if b = 0 then NaN else if 0 < b then NInf else PInf)"
| "js_mul PInf PInf = PInf"
| "js_mul PInf NInf = NInf"
| "js_mul NInf PInf = NInf"
| "js_mul NInf NInf = PInf"

fun js_div :: "number \<Rightarrow> number \<Rightarrow> number" where
  "js_div (Fin a) (Fin b) =
     (if b = 0 then (if a = 0 then NaN else if 0 < a then PInf else NInf) else rd (a / b))"
| "js_div NaN y = NaN"
| "js_div x NaN = NaN"
| "js_div (Fin a) PInf = Fin 0"
| "js_div (Fin a) NInf = Fin 0"
| "js_div PInf (Fin b) = (if 0 \<le> b then PInf else NInf)"
| "js_div NInf (Fin b) = (if 0 \<le> b then NInf else PInf)"
| "js_div PInf PInf = NaN"
| "js_div PInf NInf = NaN"
| "js_div NInf PInf = NaN"
| "js_div NInf NInf = NaN"

fun js_sub :: "number \<Rightarrow> number \<Rightarrow> number" where
  "js_sub (Fin a) (Fin b) = rd (a - b)"
| "js_sub NaN y = NaN"
| "js_sub x NaN = NaN"
| "js_sub (Fin a) PInf = NInf"
| "js_sub (Fin a) NInf = PInf"
| "js_sub PInf (Fin b) = PInf"
| "js_sub NInf (Fin b) = NInf"
| "js_sub PInf PInf = NaN"
| "js_sub PInf NInf = PInf"
| "js_sub NInf PInf = NInf"
| "js_sub NInf NInf = NaN"

text \<open>\<open>Math.round\<close>: the nearest integer, a tie going towards \<open>+\<infinity>\<close>.\<close>

fun Math_round :: "number \<Rightarrow> number" where
  "Math_round (Fin x) = Fin (of_int \<lfloor>x + 1 / 2\<rfloor>)"
| "Math_round x = x"

text \<open>Truthiness of a number: zero and NaN are falsy.\<close>

fun truthy :: "number \<Rightarrow> bool" where
  "truthy (Fin x) = (x \<noteq> 0)"
| "truthy NaN = False"
| "truthy x = True"

text \<open>\<open>null\<close> converts to \<open>0\<close> in arithmetic; a number converts to itself.\<close>

fun toNumber :: "number option \<Rightarrow> number" where
  "toNumber None = Fin 0"
| "toNumber (Some x) = x"

text \<open>The test \<open>v < 0\<close>, false for NaN.\<close>

fun negative :: "number \<Rightarrow> bool" where
  "negative (Fin x) = (x < 0)"
| "negative NInf = True"
| "negative x = False"



section \<open>Errors and configuration\<close>

text \<open>A thrown \<open>Error\<close> is the value carrying its \<open>message\<close>.\<close>

datatype error = Error (message: string)

type_synonym time = int

text \<open>
  The process environment. \<open>env_CACHE_TTL\<close> is \<open>parseInt(process.env.CACHE_TTL)\<close>,
  \<open>None\<close> standing for NaN (the variable unset or not a number); the API keys are
  \<open>None\<close> when unset.
\<close>

record config =
  env_CACHE_TTL :: "int option"
  METALS_API_KEY :: "string option"
  NEWS_API_KEY :: "string option"

text \<open>\<open>const CACHE_TTL = parseInt(process.env.CACHE_TTL) || 30\<close>: NaN and 0 are falsy.\<close>

definition CACHE_TTL :: "config \<Rightarrow> int" where
  "CACHE_TTL cfg = (case env_CACHE_TTL cfg of None \<Rightarrow> 30 | Some n \<Rightarrow> if n = 0 then 30 else n)"

text \<open>\<open>!apiKey\<close>: an unset or empty key.\<close>

fun missing :: "string option \<Rightarrow> bool" where
  "missing None = True"
| "missing (Some k) = (k = [])"

section \<open>The cache store\<close>

text \<open>
  Modelled from the spec: the cache class (\<open>new NodeCache({ stdTTL: CACHE_TTL })\<close>) comes
  from a module that is not among the sources; only its calls \<open>cache.get(key)\<close>,
  \<open>cache.set(key, value)\<close> and \<open>cache.set(key, value, ttl)\<close> are. The spec's cache entry
  holds the value, the time it was stored and its TTL in seconds; \<open>get\<close> returns the
  value while \<open>now - storedAt \<le> ttl\<close> and absent afterwards, the entry staying in place;
  \<open>set\<close> replaces the entry of the key, a write without a TTL using the store's default.
  Times are \<open>Date.now()\<close> milliseconds.
\<close>

record 'v entry =
  val :: 'v
  storedAt :: time
  ttlSeconds :: int

type_synonym 'v slot = "'v entry option"

definition cache_get :: "'v slot \<Rightarrow> time \<Rightarrow> 'v option" where
  "cache_get s now =
     (case s of
        None \<Rightarrow> None
      | Some e \<Rightarrow> if now - storedAt e > ttlSeconds e * 1000 then None else Some (val e))"

definition cache_set :: "'v \<Rightarrow> int \<Rightarrow> time \<Rightarrow> 'v slot" where
  "cache_set v ttl now = Some \<lparr>val = v, storedAt = now, ttlSeconds = ttl\<rparr>"

section \<open>The metals source\<close>

text \<open>
  The body of the metals API's answer. A field the provider left out is \<open>None\<close>;
  \<open>api_error_info\<close> is \<open>response.data.error?.info\<close>.
\<close>

record rates =
  USDXAU :: "number option"
  XAU :: "number option"
  USDXAG :: "number option"
  XAG :: "number option"

record metals_response =
  api_success :: bool
  api_error_info :: "string option"
  api_rates :: "rates option"
  api_timestamp :: "int option"

record metal_quote =
  mq_price :: "number option"
  mq_timestamp :: "int option"

record metals_result =
  gold :: metal_quote
  silver :: metal_quote
  stale :: bool

text \<open>\<open>rates.USDXAU || (rates.XAU ? (1 / rates.XAU) : null)\<close>\<close>

definition spot :: "number option \<Rightarrow> number option \<Rightarrow> number option" where
  "spot direct inverted =
     (let otherwise = (case inverted of
                         None \<Rightarrow> None
                       | Some x \<Rightarrow> if truthy x then Some (js_div (Fin 1) x) else None)
      in case direct of
           None \<Rightarrow> otherwise
         | Some d \<Rightarrow> if truthy d then Some d else otherwise)"

text \<open>\<open>response.data.error?.info || 'Metals API request failed'\<close>\<close>

fun or_default :: "string option \<Rightarrow> string \<Rightarrow> string" where
  "or_default None d = d"
| "or_default (Some s) d = (if s = [] then d else s)"

text \<open>
  The \<open>try\<close> block of \<open>fetchMetalsPrices\<close> up to the cache write. \<open>resp\<close> is what
  \<open>axios.get\<close> settles to: a rejection (network error, timeout) or the response body.
  Reading \<open>rates.USDXAU\<close> when the body has no \<open>rates\<close> throws a TypeError.
\<close>

definition metals_try :: "config \<Rightarrow> error + metals_response \<Rightarrow> error + metals_result" where
  "metals_try cfg resp =
     (if missing (METALS_API_KEY cfg) then Inl (Error ''METALS_API_KEY not configured'')
      else case resp of
        Inl e \<Rightarrow> Inl e
      | Inr d \<Rightarrow>
          if \<not> api_success d
          then Inl (Error (or_default (api_error_info d) ''Metals API request failed''))
          else case api_rates d of
            None \<Rightarrow> Inl (Error ''Cannot read properties of undefined (reading 'USDXAU')'')
          | Some r \<Rightarrow>
              Inr \<lparr>gold = \<lparr>mq_price = spot (USDXAU r) (XAU r), mq_timestamp = api_timestamp d\<rparr>,
                   silver = \<lparr>mq_price = spot (USDXAG r) (XAG r), mq_timestamp = api_timestamp d\<rparr>,
                   stale = False\<rparr>)"

section \<open>The equity index source\<close>

record yf_quote =
  regularMarketPrice :: "number option"
  regularMarketPreviousClose :: "number option"
  regularMarketChange :: "number option"
  regularMarketChangePercent :: "number option"
  yf_marketState :: "string option"
  regularMarketTime :: "int option"

record index_quote =
  iq_price :: "number option"
  iq_previousClose :: "number option"
  iq_change :: "number option"
  iq_changePercent :: "number option"
  iq_marketState :: "string option"
  iq_timestamp :: "int option"

record stocks_result =
  sp500 :: index_quote
  dow :: index_quote
  stocks_stale :: bool

definition index_of_quote :: "yf_quote \<Rightarrow> index_quote" where
  "index_of_quote q =
     \<lparr>iq_price = regularMarketPrice q,
      iq_previousClose = regularMarketPreviousClose q,
      iq_change = regularMarketChange q,
      iq_changePercent = regularMarketChangePercent q,
      iq_marketState = yf_marketState q,
      iq_timestamp = regularMarketTime q\<rparr>"

text \<open>
  The \<open>try\<close> block of \<open>fetchStockIndices\<close> up to the cache write. \<open>quotes\<close> is what
  the module import followed by \<open>Promise.all([yf.quote('^GSPC'), yf.quote('^DJI')])\<close>
  settles to: the first rejection, or the two quotes.
\<close>

definition stocks_try :: "error + yf_quote \<times> yf_quote \<Rightarrow> error + stocks_result" where
  "stocks_try quotes =
     (case quotes of
        Inl e \<Rightarrow> Inl e
      | Inr (q1, q2) \<Rightarrow>
          Inr \<lparr>sp500 = index_of_quote q1, dow = index_of_quote q2, stocks_stale = False\<rparr>)"

section \<open>The news source\<close>

text \<open>
  An article as the news API returns it, \<open>raw_source_name\<close> being \<open>article.source.name\<close>.
  A \<open>null\<close> or missing field is \<open>None\<close>. Strings are lists of characters; the
  model's \<open>toLowerCase\<close> maps the letters \<open>A\<close> to \<open>Z\<close> and leaves every other
  character as it is.
\<close>

record raw_article =
  raw_title :: "string option"
  raw_description :: "string option"
  raw_source_name :: "string option"
  raw_url :: "string option"
  raw_urlToImage :: "string option"
  raw_publishedAt :: "string option"

record news_response =
  news_status :: string
  news_message :: "string option"
  news_articles :: "raw_article list"

text \<open>The projection of \<open>fetchNews\<close>.\<close>

record news_item =
  ni_title :: "string option"
  ni_description :: "string option"
  ni_source :: "string option"
  ni_url :: "string option"
  ni_publishedAt :: "string option"

text \<open>The projection of \<open>fetchMacroNews\<close>, \<open>fetchInflationNews\<close> and \<open>fetchGoldNews\<close>.\<close>

record article =
  title :: "string option"
  description :: "string option"
  source :: "string option"
  url :: "string option"
  image_url :: "string option"
  publishedAt :: "string option"

text \<open>The projection of \<open>fetchBullishHeadlines\<close>.\<close>

record headline =
  hl_title :: "string option"
  hl_source :: "string option"
  hl_url :: "string option"
  hl_publishedAt :: "string option"

definition toLowerCase :: "string \<Rightarrow> string" where
  "toLowerCase s =
     map (\<lambda>c. case map_of (zip ''ABCDEFGHIJKLMNOPQRSTUVWXYZ'' ''abcdefghijklmnopqrstuvwxyz'') c of
                 None \<Rightarrow> c
               | Some l \<Rightarrow> l) s"

text \<open>The characters that \<open>replace(/[^a-z0-9]/g, '')\<close> keeps.\<close>

definition alnum :: "char \<Rightarrow> bool" where
  "alnum c = (c \<in> set ''abcdefghijklmnopqrstuvwxyz0123456789'')"

text \<open>
  \<open>title?.toLowerCase().slice(0, 50).replace(/[^a-z0-9]/g, '')\<close>: \<open>undefined\<close>
  (\<open>None\<close>) for a \<open>null\<close> title.
\<close>

definition key_of :: "string option \<Rightarrow> string option" where
  "key_of t = map_option (\<lambda>s. filter alnum (take 50 (toLowerCase s))) t"

definition titleKey :: "raw_article \<Rightarrow> string option" where
  "titleKey a = key_of (raw_title a)"

text \<open>
  The filter callback of \<open>fetchMacroNews\<close>, \<open>fetchInflationNews\<close> and \<open>fetchGoldNews\<close>
  (the same text in all three), run over the list with the set \<open>seen\<close> threaded through.
\<close>

fun dedupe :: "string option set \<Rightarrow> raw_article list \<Rightarrow> raw_article list" where
  "dedupe seen [] = []"
| "dedupe seen (a # as) =
     (let key = titleKey a
      in if key \<in> seen then dedupe seen as
         else a # dedupe (insert key seen) as)"

text \<open>\<open>article.title.includes('[Removed]')\<close>\<close>

fun includes_str :: "string \<Rightarrow> string \<Rightarrow> bool" where
  "includes_str [] pat = (pat = [])"
| "includes_str (c # cs) pat = (take (length pat) (c # cs) = pat \<or> includes_str cs pat)"

text \<open>\<open>!article.title || article.title.includes('[Removed]')\<close>\<close>

fun removed :: "string option \<Rightarrow> bool" where
  "removed None = True"
| "removed (Some t) = (t = [] \<or> includes_str t ''[Removed]'')"

text \<open>The filter callback of \<open>fetchBullishHeadlines\<close>.\<close>

fun dedupeHeadlines :: "string option set \<Rightarrow> raw_article list \<Rightarrow> raw_article list" where
  "dedupeHeadlines seen [] = []"
| "dedupeHeadlines seen (a # as) =
     (let key = titleKey a
      in if key \<in> seen then dedupeHeadlines seen as
         else if removed (raw_title a) then dedupeHeadlines seen as
         else a # dedupeHeadlines (insert key seen) as)"

definition to_news_item :: "raw_article \<Rightarrow> news_item" where
  "to_news_item a =
     \<lparr>ni_title = raw_title a, ni_description = raw_description a,
      ni_source = raw_source_name a, ni_url = raw_url a, ni_publishedAt = raw_publishedAt a\<rparr>"

definition to_article :: "raw_article \<Rightarrow> article" where
  "to_article a =
     \<lparr>title = raw_title a, description = raw_description a, source = raw_source_name a,
      url = raw_url a, image_url = raw_urlToImage a, publishedAt = raw_publishedAt a\<rparr>"

definition to_headline :: "raw_article \<Rightarrow> headline" where
  "to_headline a =
     \<lparr>hl_title = raw_title a, hl_source = raw_source_name a, hl_url = raw_url a,
      hl_publishedAt = raw_publishedAt a\<rparr>"

text \<open>
  The part of each news fetcher's \<open>try\<close> block before the articles are processed: the
  key check, the request, and the provider's status.
\<close>

definition news_request :: "config \<Rightarrow> error + news_response \<Rightarrow> error + raw_article list" where
  "news_request cfg resp =
     (if missing (NEWS_API_KEY cfg) then Inl (Error ''NEWS_API_KEY not configured'')
      else case resp of
        Inl e \<Rightarrow> Inl e
      | Inr d \<Rightarrow>
          if news_status d \<noteq> ''ok''
          then Inl (Error (or_default (news_message d) ''NewsAPI request failed''))
          else Inr (news_articles d))"

text \<open>\<open>.filter(...).map(...).slice(0, 10)\<close> of the three themed fetchers.\<close>

definition themed_articles :: "raw_article list \<Rightarrow> article list" where
  "themed_articles raws = take 10 (map to_article (dedupe {} raws))"

text \<open>\<open>.filter(...).map(...).slice(0, 25)\<close> of \<open>fetchBullishHeadlines\<close>.\<close>

definition bullish_headlines_of :: "raw_article list \<Rightarrow> headline list" where
  "bullish_headlines_of raws = take 25 (map to_headline (dedupeHeadlines {} raws))"

section \<open>The historical source\<close>

record bar =
  close :: number

record perf_record =
  name :: string
  return :: number

text \<open>
  \<open>fetchHistory(symbol, name)\<close>. \<open>historical\<close> gives what \<open>yf.historical\<close> settles to
  for each symbol. A rejection is caught and gives \<open>null\<close>, as does a history of fewer
  than two bars.
\<close>

definition fetchHistory :: "(string \<Rightarrow> error + bar list) \<Rightarrow> string \<Rightarrow> string \<Rightarrow> perf_record option" where
  "fetchHistory historical symb nm =
     (case historical symb of
        Inl err \<Rightarrow> None
      | Inr history \<Rightarrow>
          if length history > 1
          then let startPrice = close (history ! 0);
                   endPrice = close (history ! (length history - 1));
                   returnPct = js_mul (js_div (js_sub endPrice startPrice) startPrice) (Fin 100)
               in Some \<lparr>name = nm, return = Math_round returnPct\<rparr>
          else None)"

text \<open>
  \<open>Array.prototype.sort\<close> with a comparator, as the engine of Node (V8) sorts an array
  of fewer than 64 elements; the list of the performance handler has at most eight. The
  engine reads the number the comparator returns with NaN counting as 0, and only asks
  whether it is below zero. \<open>cmp x y\<close> below zero says that \<open>x\<close> goes before \<open>y\<close>.

  The engine first takes the run at the start of the array: it compares the second
  element with the first, and then each element with the one before it for as long as
  the answer stays the same (below zero throughout, or not below zero throughout). A
  run of answers below zero is reversed. \<open>run_end\<close> counts the elements of the run
  after the first two.
\<close>

fun run_end :: "('a \<Rightarrow> 'a \<Rightarrow> number) \<Rightarrow> bool \<Rightarrow> 'a \<Rightarrow> 'a list \<Rightarrow> nat" where
  "run_end cmp isDescending previous [] = 0"
| "run_end cmp isDescending previous (current # xs) =
     (if negative (cmp current previous) = isDescending
      then Suc (run_end cmp isDescending current xs)
      else 0)"

text \<open>
  Each further element, the pivot, is inserted into the sorted front of the array. The
  place is found by halving the interval \<open>left..right\<close>: the pivot goes before the
  middle element when the comparator says so, and behind it otherwise.
\<close>

function binarySearch :: "('a \<Rightarrow> 'a \<Rightarrow> number) \<Rightarrow> 'a \<Rightarrow> 'a list \<Rightarrow> nat \<Rightarrow> nat \<Rightarrow> nat" where
  "binarySearch cmp pivot xs left right =
     (if left < right
      then if negative (cmp pivot (xs ! (left + (right - left) div 2)))
           then binarySearch cmp pivot xs left (left + (right - left) div 2)
           else binarySearch cmp pivot xs (left + (right - left) div 2 + 1) right
      else left)"
  by pat_completeness auto
termination
  by (relation "measure (\<lambda>(cmp, pivot, xs, left, right). right - left)") auto

declare binarySearch.simps [simp del]

fun binaryInsertionSort :: "('a \<Rightarrow> 'a \<Rightarrow> number) \<Rightarrow> 'a list \<Rightarrow> 'a list \<Rightarrow> 'a list" where
  "binaryInsertionSort cmp front [] = front"
| "binaryInsertionSort cmp front (pivot # rest) =
     (let left = binarySearch cmp pivot front 0 (length front)
      in binaryInsertionSort cmp (take left front @ pivot # drop left front) rest)"

definition sort_by :: "('a \<Rightarrow> 'a \<Rightarrow> number) \<Rightarrow> 'a list \<Rightarrow> 'a list" where
  "sort_by cmp xs =
     (case xs of
        first # second # rest \<Rightarrow>
          (let isDescending = negative (cmp second first);
               runLength = 2 + run_end cmp isDescending second rest;
               run = take runLength xs
           in binaryInsertionSort cmp (if isDescending then rev run else run)
                (drop runLength xs))
      | _ \<Rightarrow> xs)"

text \<open>The body of the \<open>try\<close> block of the performance handler, up to the cache write.\<close>

definition assetData :: "(string \<Rightarrow> error + bar list) \<Rightarrow> perf_record list" where
  "assetData historical =
     (let results = [fetchHistory historical ''GC=F'' ''Gold'',
                     fetchHistory historical ''SI=F'' ''Silver'',
                     fetchHistory historical ''^GSPC'' ''S&P 500'',
                     fetchHistory historical ''^DJI'' ''Dow Jones'',
                     fetchHistory historical ''VNQ'' ''Real Estate'',
                     fetchHistory historical ''AGG'' ''Bonds''];
          live = map the (filter (\<lambda>r. r \<noteq> None) results);
          pushed = live @ [\<lparr>name = ''CDs/Savings'', return = Fin 49\<rparr>,
                           \<lparr>name = ''Cash (USD)'', return = Fin (- 44)\<rparr>]
      in sort_by (\<lambda>a b. js_sub (return b) (return a)) pushed)"


section \<open>The fetchers\<close>

text \<open>
  The one cache of the server, a field for each key the source uses. Each fetcher
  takes the clock at its entry (\<open>now\<close>) and the clock once its awaited call has settled
  (\<open>later\<close>), and returns its result, \<open>Inl\<close> for a thrown error, with the cache
  as it leaves it.
\<close>

record cache =
  metals_prices :: "metals_result slot"
  stock_indices :: "stocks_result slot"
  news :: "news_item list slot"
  macro_news :: "article list slot"
  inflation_news :: "article list slot"
  gold_news :: "article list slot"
  bullish_headlines :: "headline list slot"
  performance_data :: "perf_record list slot"

definition empty_cache :: cache where
  "empty_cache =
     \<lparr>metals_prices = None, stock_indices = None, news = None, macro_news = None,
      inflation_news = None, gold_news = None, bullish_headlines = None,
      performance_data = None\<rparr>"

text \<open>
  The clock at a \<open>catch\<close> block: a missing key throws before the request is awaited,
  every other failure comes after it.
\<close>

definition catch_time :: "string option \<Rightarrow> time \<Rightarrow> time \<Rightarrow> time" where
  "catch_time key now later = (if missing key then now else later)"

definition fetchMetalsPrices ::
  "config \<Rightarrow> error + metals_response \<Rightarrow> time \<Rightarrow> time \<Rightarrow> cache \<Rightarrow> (error + metals_result) \<times> cache" where
  "fetchMetalsPrices cfg resp now later c =
     (case cache_get (metals_prices c) now of
        Some cached \<Rightarrow> (Inr cached, c)
      | None \<Rightarrow>
          (case metals_try cfg resp of
             Inr result \<Rightarrow>
               (Inr result, c\<lparr>metals_prices := cache_set result (CACHE_TTL cfg) later\<rparr>)
           | Inl err \<Rightarrow>
               (case cache_get (metals_prices c) (catch_time (METALS_API_KEY cfg) now later) of
                  Some staleCache \<Rightarrow> (Inr (staleCache\<lparr>stale := True\<rparr>), c)
                | None \<Rightarrow> (Inl err, c))))"

definition fetchStockIndices ::
  "config \<Rightarrow> error + yf_quote \<times> yf_quote \<Rightarrow> time \<Rightarrow> time \<Rightarrow> cache \<Rightarrow> (error + stocks_result) \<times> cache" where
  "fetchStockIndices cfg quotes now later c =
     (case cache_get (stock_indices c) now of
        Some cached \<Rightarrow> (Inr cached, c)
      | None \<Rightarrow>
          (case stocks_try quotes of
             Inr result \<Rightarrow>
               (Inr result, c\<lparr>stock_indices := cache_set result (CACHE_TTL cfg) later\<rparr>)
           | Inl err \<Rightarrow>
               (case cache_get (stock_indices c) later of
                  Some staleCache \<Rightarrow> (Inr (staleCache\<lparr>stocks_stale := True\<rparr>), c)
                | None \<Rightarrow> (Inl err, c))))"

definition fetchNews ::
  "config \<Rightarrow> error + news_response \<Rightarrow> time \<Rightarrow> time \<Rightarrow> cache \<Rightarrow> (error + news_item list) \<times> cache" where
  "fetchNews cfg resp now later c =
     (case cache_get (news c) now of
        Some cached \<Rightarrow> (Inr cached, c)
      | None \<Rightarrow>
          (case news_request cfg resp of
             Inr raws \<Rightarrow>
               (let articles = map to_news_item raws
                in (Inr articles, c\<lparr>news := cache_set articles 43200 later\<rparr>))
           | Inl err \<Rightarrow>
               (case cache_get (news c) (catch_time (NEWS_API_KEY cfg) now later) of
                  Some staleCache \<Rightarrow> (Inr staleCache, c)
                | None \<Rightarrow> (Inl err, c))))"

definition fetchMacroNews ::
  "config \<Rightarrow> error + news_response \<Rightarrow> time \<Rightarrow> time \<Rightarrow> cache \<Rightarrow> (error + article list) \<times> cache" where
  "fetchMacroNews cfg resp now later c =
     (case cache_get (macro_news c) now of
        Some cached \<Rightarrow> (Inr cached, c)
      | None \<Rightarrow>
          (case news_request cfg resp of
             Inr raws \<Rightarrow>
               (let articles = themed_articles raws
                in (Inr articles, c\<lparr>macro_news := cache_set articles 600 later\<rparr>))
           | Inl err \<Rightarrow>
               (case cache_get (macro_news c) (catch_time (NEWS_API_KEY cfg) now later) of
                  Some staleCache \<Rightarrow> (Inr staleCache, c)
                | None \<Rightarrow> (Inl err, c))))"

definition fetchInflationNews ::
  "config \<Rightarrow> error + news_response \<Rightarrow> time \<Rightarrow> time \<Rightarrow> cache \<Rightarrow> (error + article list) \<times> cache" where
  "fetchInflationNews cfg resp now later c =
     (case cache_get (inflation_news c) now of
        Some cached \<Rightarrow> (Inr cached, c)
      | None \<Rightarrow>
          (case news_request cfg resp of
             Inr raws \<Rightarrow>
               (let articles = themed_articles raws
                in (Inr articles, c\<lparr>inflation_news := cache_set articles 600 later\<rparr>))
           | Inl err \<Rightarrow>
               (case cache_get (inflation_news c) (catch_time (NEWS_API_KEY cfg) now later) of
                  Some staleCache \<Rightarrow> (Inr staleCache, c)
                | None \<Rightarrow> (Inl err, c))))"

definition fetchGoldNews ::
  "config \<Rightarrow> error + news_response \<Rightarrow> time \<Rightarrow> time \<Rightarrow> cache \<Rightarrow> (error + article list) \<times> cache" where
  "fetchGoldNews cfg resp now later c =
     (case cache_get (gold_news c) now of
        Some cached \<Rightarrow> (Inr cached, c)
      | None \<Rightarrow>
          (case news_request cfg resp of
             Inr raws \<Rightarrow>
               (let articles = themed_articles raws
                in (Inr articles, c\<lparr>gold_news := cache_set articles 600 later\<rparr>))
           | Inl err \<Rightarrow>
               (case cache_get (gold_news c) (catch_time (NEWS_API_KEY cfg) now later) of
                  Some staleCache \<Rightarrow> (Inr staleCache, c)
                | None \<Rightarrow> (Inl err, c))))"

definition fetchBullishHeadlines ::
  "config \<Rightarrow> error + news_response \<Rightarrow> time \<Rightarrow> time \<Rightarrow> cache \<Rightarrow> (error + headline list) \<times> cache" where
  "fetchBullishHeadlines cfg resp now later c =
     (case cache_get (bullish_headlines c) now of
        Some cached \<Rightarrow> (Inr cached, c)
      | None \<Rightarrow>
          (case news_request cfg resp of
             Inr raws \<Rightarrow>
               (let headlines = bullish_headlines_of raws
                in (Inr headlines, c\<lparr>bullish_headlines := cache_set headlines 600 later\<rparr>))
           | Inl err \<Rightarrow>
               (case cache_get (bullish_headlines c) (catch_time (NEWS_API_KEY cfg) now later) of
                  Some staleCache \<Rightarrow> (Inr staleCache, c)
                | None \<Rightarrow> (Inl err, c))))"

section \<open>The request handlers\<close>

text \<open>
  The JSON envelope of a response. \<open>payload\<close> is the field \<open>data\<close>, \<open>articles\<close> or
  \<open>headlines\<close> of the endpoint; a field the handler does not write is \<open>None\<close>.
\<close>

record 'p envelope =
  success :: bool
  payload :: 'p
  error :: "string option"
  lastUpdated :: "time option"
  warnings :: "string list option"


record tile =
  symbol :: string
  tile_name :: string
  price :: "number option"
  previousClose :: "number option"
  change :: "number option"
  changePercent :: "number option"
  marketState :: "string option"
  unit :: string

record prices_data =
  data_gold :: "tile option"
  data_silver :: "tile option"
  data_sp500 :: "tile option"
  data_dow :: "tile option"

definition gold_tile :: "metal_quote \<Rightarrow> tile" where
  "gold_tile g =
     \<lparr>symbol = ''XAU'', tile_name = ''Gold'', price = mq_price g,
      previousClose = Some (js_mul (toNumber (mq_price g)) (lit 0.998)),
      change = Some (js_mul (toNumber (mq_price g)) (lit 0.002)),
      changePercent = Some (lit 0.2),
      marketState = None, unit = ''USD/oz''\<rparr>"

definition silver_tile :: "metal_quote \<Rightarrow> tile" where
  "silver_tile g =
     \<lparr>symbol = ''XAG'', tile_name = ''Silver'', price = mq_price g,
      previousClose = Some (js_mul (toNumber (mq_price g)) (lit 0.995)),
      change = Some (js_mul (toNumber (mq_price g)) (lit 0.005)),
      changePercent = Some (lit 0.5),
      marketState = None, unit = ''USD/oz''\<rparr>"

definition index_tile :: "string \<Rightarrow> string \<Rightarrow> index_quote \<Rightarrow> tile" where
  "index_tile sy nm q =
     \<lparr>symbol = sy, tile_name = nm, price = iq_price q,
      previousClose = iq_previousClose q, change = iq_change q,
      changePercent = iq_changePercent q,
      marketState = iq_marketState q, unit = ''points''\<rparr>"

text \<open>
  \<open>GET /api/prices\<close>. The two fetchers start together; they read and write different
  keys, so running one after the other on the cache gives the same results.
  \<open>Promise.allSettled\<close> hands each outcome to the handler, fulfilled or rejected. The
  results of the fetchers always carry both of their quotes, so \<open>metals?.gold\<close> and
  its three siblings are truthy whenever the fetch was fulfilled.
\<close>

definition pricesHandler ::
  "config \<Rightarrow> error + metals_response \<Rightarrow> error + yf_quote \<times> yf_quote \<Rightarrow> time \<Rightarrow> time \<Rightarrow> cache
     \<Rightarrow> prices_data envelope \<times> cache" where
  "pricesHandler cfg resp quotes now later c =
     (let (metalsResult, c1) = fetchMetalsPrices cfg resp now later c;
          (stocksResult, c2) = fetchStockIndices cfg quotes now later c1;
          metals = (case metalsResult of Inr m \<Rightarrow> Some m | Inl reason \<Rightarrow> None);
          warnings1 = (case metalsResult of
                         Inr m \<Rightarrow> if stale m then [''Metals data may be stale''] else []
                       | Inl reason \<Rightarrow> [''Unable to fetch metals prices'']);
          stocks = (case stocksResult of Inr s \<Rightarrow> Some s | Inl reason \<Rightarrow> None);
          warnings2 = (case stocksResult of
                         Inr s \<Rightarrow> if stocks_stale s then [''Stock indices may be stale''] else []
                       | Inl reason \<Rightarrow> [''Unable to fetch stock indices'']);
          ws = warnings1 @ warnings2
      in (\<lparr>success = True,
           payload = \<lparr>data_gold = map_option (\<lambda>m. gold_tile (gold m)) metals,
                      data_silver = map_option (\<lambda>m. silver_tile (silver m)) metals,
                      data_sp500 = map_option (\<lambda>s. index_tile ''^GSPC'' ''S&P 500'' (sp500 s)) stocks,
                      data_dow = map_option (\<lambda>s. index_tile ''^DJI'' ''Dow Jones'' (dow s)) stocks\<rparr>,
           error = None,
           lastUpdated = Some later,
           warnings = (if length ws > 0 then Some ws else None)\<rparr>, c2))"

text \<open>
  The handlers of the single-source endpoints share one shape: the fetcher's result in
  a \<open>success: true\<close> envelope, or a caught error in a \<open>success: false\<close> one with its
  message and an empty list.
\<close>

definition respond :: "(error + 'a list) \<times> cache \<Rightarrow> time \<Rightarrow> 'a list envelope \<times> cache" where
  "respond r later =
     (case r of
        (Inr items, c) \<Rightarrow>
          (\<lparr>success = True, payload = items, error = None, lastUpdated = Some later,
            warnings = None\<rparr>, c)
      | (Inl e, c) \<Rightarrow>
          (\<lparr>success = False, payload = [], error = Some (message e), lastUpdated = None,
            warnings = None\<rparr>, c))"

text \<open>\<open>GET /api/news\<close>\<close>

definition newsHandler ::
  "config \<Rightarrow> error + news_response \<Rightarrow> time \<Rightarrow> time \<Rightarrow> cache \<Rightarrow> news_item list envelope \<times> cache" where
  "newsHandler cfg resp now later c = respond (fetchNews cfg resp now later c) later"

text \<open>\<open>GET /api/macro-news\<close>\<close>

definition macroNewsHandler ::
  "config \<Rightarrow> error + news_response \<Rightarrow> time \<Rightarrow> time \<Rightarrow> cache \<Rightarrow> article list envelope \<times> cache" where
  "macroNewsHandler cfg resp now later c = respond (fetchMacroNews cfg resp now later c) later"

text \<open>\<open>GET /api/news/inflation\<close>\<close>

definition inflationNewsHandler ::
  "config \<Rightarrow> error + news_response \<Rightarrow> time \<Rightarrow> time \<Rightarrow> cache \<Rightarrow> article list envelope \<times> cache" where
  "inflationNewsHandler cfg resp now later c =
     respond (fetchInflationNews cfg resp now later c) later"

text \<open>\<open>GET /api/news/gold\<close>\<close>

definition goldNewsHandler ::
  "config \<Rightarrow> error + news_response \<Rightarrow> time \<Rightarrow> time \<Rightarrow> cache \<Rightarrow> article list envelope \<times> cache" where
  "goldNewsHandler cfg resp now later c = respond (fetchGoldNews cfg resp now later c) later"

text \<open>\<open>GET /api/news/headlines\<close>\<close>

definition headlinesHandler ::
  "config \<Rightarrow> error + news_response \<Rightarrow> time \<Rightarrow> time \<Rightarrow> cache \<Rightarrow> headline list envelope \<times> cache" where
  "headlinesHandler cfg resp now later c =
     respond (fetchBullishHeadlines cfg resp now later c) later"

text \<open>
  \<open>GET /api/performance\<close>. \<open>imported\<close> is the outcome of loading the Yahoo module:
  \<open>Some\<close> error when the import is rejected, which the handler's own \<open>catch\<close> turns into
  a \<open>success: false\<close> envelope.
\<close>

definition performanceHandler ::
  "error option \<Rightarrow> (string \<Rightarrow> error + bar list) \<Rightarrow> time \<Rightarrow> time \<Rightarrow> cache
     \<Rightarrow> perf_record list envelope \<times> cache" where
  "performanceHandler imported historical now later c =
     (case cache_get (performance_data c) now of
        Some cached \<Rightarrow>
          (\<lparr>success = True, payload = cached, error = None, lastUpdated = None,
            warnings = None\<rparr>, c)
      | None \<Rightarrow>
          (case imported of
             Some e \<Rightarrow>
               (\<lparr>success = False, payload = [], error = Some (message e), lastUpdated = None,
                 warnings = None\<rparr>, c)
           | None \<Rightarrow>
               (let sorted_data = assetData historical
                in (\<lparr>success = True, payload = sorted_data, error = None, lastUpdated = None,
                     warnings = None\<rparr>,
                    c\<lparr>performance_data := cache_set sorted_data 3600 later\<rparr>))))"

text \<open>\<open>GET /api/health\<close>\<close>

record health_body =
  status :: string
  timestamp :: time
  cacheTTL :: int

definition healthHandler :: "config \<Rightarrow> time \<Rightarrow> health_body" where
  "healthHandler cfg now = \<lparr>status = ''ok'', timestamp = now, cacheTTL = CACHE_TTL cfg\<rparr>"

section \<open>The server\<close>

text \<open>
  The routes of the server, and what the outside world answers while one request is
  served: the metals API, the two Yahoo quotes, the news API, the import of the Yahoo
  module and the monthly histories, with the clock after the awaited calls.
\<close>

datatype request =
  GET_prices | GET_news | GET_macro_news | GET_news_inflation | GET_news_gold
  | GET_news_headlines | GET_performance | GET_health

record upstream =
  metals_api :: "error + metals_response"
  yahoo_quotes :: "error + yf_quote \<times> yf_quote"
  news_api :: "error + news_response"
  yahoo_import :: "error option"
  yahoo_historical :: "string \<Rightarrow> error + bar list"
  clock_later :: time

datatype response =
  Prices "prices_data envelope"
  | News "news_item list envelope"
  | Articles "article list envelope"
  | Headlines "headline list envelope"
  | Performance "perf_record list envelope"
  | Health health_body

fun serve :: "config \<Rightarrow> request \<Rightarrow> upstream \<Rightarrow> time \<Rightarrow> cache \<Rightarrow> response \<times> cache" where
  "serve cfg GET_prices u now c =
     (let (r, c') = pricesHandler cfg (metals_api u) (yahoo_quotes u) now (clock_later u) c
      in (Prices r, c'))"
| "serve cfg GET_news u now c =
     (let (r, c') = newsHandler cfg (news_api u) now (clock_later u) c in (News r, c'))"
| "serve cfg GET_macro_news u now c =
     (let (r, c') = macroNewsHandler cfg (news_api u) now (clock_later u) c in (Articles r, c'))"
| "serve cfg GET_news_inflation u now c =
     (let (r, c') = inflationNewsHandler cfg (news_api u) now (clock_later u) c
      in (Articles r, c'))"
| "serve cfg GET_news_gold u now c =
     (let (r, c') = goldNewsHandler cfg (news_api u) now (clock_later u) c in (Articles r, c'))"
| "serve cfg GET_news_headlines u now c =
     (let (r, c') = headlinesHandler cfg (news_api u) now (clock_later u) c
      in (Headlines r, c'))"
| "serve cfg GET_performance u now c =
     (let (r, c') = performanceHandler (yahoo_import u) (yahoo_historical u) now (clock_later u) c
      in (Performance r, c'))"
| "serve cfg GET_health u now c = (Health (healthHandler cfg now), c)"

text \<open>The caches the server can be in: empty at start, then changed by requests only.\<close>

inductive reachable :: "config \<Rightarrow> cache \<Rightarrow> bool" for cfg :: config where
  start: "reachable cfg empty_cache"
| step: "reachable cfg c \<Longrightarrow> serve cfg req u now c = (r, c') \<Longrightarrow> reachable cfg c'"

section \<open>Example inputs\<close>

text \<open>Concrete configurations and provider answers, used to run the model.\<close>

definition example_config :: config where
  "example_config =
     \<lparr>env_CACHE_TTL = None, METALS_API_KEY = Some ''k1'', NEWS_API_KEY = Some ''k2''\<rparr>"

definition example_metals :: "number option \<Rightarrow> number option \<Rightarrow> metals_response" where
  "example_metals g s =
     \<lparr>api_success = True, api_error_info = None,
      api_rates = Some \<lparr>USDXAU = g, XAU = None, USDXAG = s, XAG = None\<rparr>,
      api_timestamp = Some 1700000000\<rparr>"

definition example_result :: metals_result where
  "example_result =
     \<lparr>gold = \<lparr>mq_price = Some (Fin 2000), mq_timestamp = Some 1700000000\<rparr>,
      silver = \<lparr>mq_price = Some (Fin 25), mq_timestamp = Some 1700000000\<rparr>,
      stale = False\<rparr>"

definition example_cache :: cache where
  "example_cache =
     empty_cache\<lparr>metals_prices := Some \<lparr>val = example_result, storedAt = 1000, ttlSeconds = 30\<rparr>\<rparr>"

definition example_quote :: "number \<Rightarrow> yf_quote" where
  "example_quote p =
     \<lparr>regularMarketPrice = Some p, regularMarketPreviousClose = Some p,
      regularMarketChange = Some (Fin 0), regularMarketChangePercent = Some (Fin 0),
      yf_marketState = Some ''CLOSED'', regularMarketTime = Some 1700000000\<rparr>"


definition example_removed :: raw_article where
  "example_removed =
     \<lparr>raw_title = Some ''[Removed]'', raw_description = Some ''[Removed]'',
      raw_source_name = Some ''[Removed]'', raw_url = Some ''https://removed.com'',
      raw_urlToImage = None, raw_publishedAt = Some ''1970-01-01T00:00:00Z''\<rparr>"

definition example_untitled :: raw_article where
  "example_untitled =
     \<lparr>raw_title = None, raw_description = Some ''Bullion demand rises'',
      raw_source_name = Some ''Wire'', raw_url = Some ''https://example.com/a'',
      raw_urlToImage = None, raw_publishedAt = Some ''2024-01-15T14:30:00Z''\<rparr>"

definition example_news :: "raw_article list \<Rightarrow> news_response" where
  "example_news raws = \<lparr>news_status = ''ok'', news_message = None, news_articles = raws\<rparr>"

definition example_article :: "string \<Rightarrow> string \<Rightarrow> raw_article" where
  "example_article t u =
     \<lparr>raw_title = Some t, raw_description = None, raw_source_name = Some ''Wire'',
      raw_url = Some u, raw_urlToImage = None, raw_publishedAt = Some ''2024-01-15T14:30:00Z''\<rparr>"

definition example_historical :: "string \<Rightarrow> error + bar list" where
  "example_historical s =
     (if s = ''GC=F'' then Inr [\<lparr>close = Fin 100\<rparr>, \<lparr>close = Fin 180\<rparr>, \<lparr>close = Fin 150\<rparr>]
      else if s = ''^GSPC'' then Inr [\<lparr>close = Fin 100\<rparr>, \<lparr>close = Fin 250\<rparr>]
      else if s = ''SI=F'' then Inl (Error ''Not Found'')
      else if s = ''^DJI'' then Inr [\<lparr>close = Fin 100\<rparr>]
      else if s = ''AGG'' then Inr [\<lparr>close = Fin 80\<rparr>, \<lparr>close = Fin 88\<rparr>]
      else Inr [])"



definition example_inconsistent :: "string \<Rightarrow> error + bar list" where
  "example_inconsistent s =
     (if s = ''^DJI'' then Inr [\<lparr>close = Fin 100\<rparr>, \<lparr>close = Fin 120\<rparr>]
      else if s = ''VNQ'' then Inr [\<lparr>close = Fin 100\<rparr>, \<lparr>close = Fin 180\<rparr>]
      else if s = ''AGG'' then Inr [\<lparr>close = Fin 0\<rparr>, \<lparr>close = Fin 0\<rparr>]
      else Inl (Error ''Not Found''))"

definition example_down :: upstream where
  "example_down =
     \<lparr>metals_api = Inl (Error ''Network Error''),
      yahoo_quotes = Inl (Error ''Network Error''),
      news_api = Inl (Error ''Network Error''),
      yahoo_import = None,
      yahoo_historical = (\<lambda>s. Inl (Error ''Not Found'')),
      clock_later = 1\<rparr>"

section \<open>Arithmetic of the literals\<close>

text \<open>
  The products and quotients the handlers compute on the literals of the source,
  evaluated in binary64 arithmetic.
\<close>

lemma rd_0: "rd 0 = Fin 0"
  by (simp add: rd_def)

lemma lit_0998: "lit 0.998 = Fin (4494592428115755 / 4503599627370496)"
  by code_simp

lemma lit_0002: "lit 0.002 = Fin (1152921504606847 / 576460752303423488)"
  by code_simp

lemma lit_0995: "lit 0.995 = Fin (8962163258467287 / 9007199254740992)"
  by code_simp

lemma lit_0005: "lit 0.005 = Fin (5764607523034235 / 1152921504606846976)"
  by code_simp

lemma gold_2000_previousClose: "js_mul (Fin 2000) (lit 0.998) = Fin 1996"
  by code_simp

lemma gold_2000_change: "js_mul (Fin 2000) (lit 0.002) = Fin 4"
  by code_simp

lemma js_mul_0_lit: 
  "js_mul (Fin 0) (lit 0.998) = Fin 0" "js_mul (Fin 0) (lit 0.002) = Fin 0"
  "js_mul (Fin 0) (lit 0.995) = Fin 0" "js_mul (Fin 0) (lit 0.005) = Fin 0"
  unfolding lit_0998 lit_0002 lit_0995 lit_0005 by (simp_all add: rd_0)







lemma synthetic_order: "js_sub (Fin 49) (Fin (- 44)) = Fin 93"
  by code_simp


section \<open>Rounding keeps the sign\<close>



















section \<open>The sort\<close>

text \<open>
  The sort permutes its input, whatever the comparator answers. With the comparator of
  the performance handler it orders the records by descending return when every return
  is an integer or an infinity: the first run is then ordered, the binary search finds
  the place that keeps the front ordered, and the insertion keeps it so.
\<close>

lemma mset_binaryInsertionSort:
  "mset (binaryInsertionSort cmp front rest) = mset front + mset rest"
proof (induction rest arbitrary: front)
  case Nil
  show ?case by simp
next
  case (Cons pivot rest)
  have "mset (take k front @ pivot # drop k front) = add_mset pivot (mset front)" for k
    using append_take_drop_id [of k front] by (metis mset.simps(2) union_mset_add_mset_right mset_append)
  then show ?case
    by (simp add: Cons.IH Let_def)
qed

lemma mset_take_drop: "mset (take n xs) + mset (drop n xs) = mset xs"
  by (metis append_take_drop_id mset_append)

lemma mset_sort_by: "mset (sort_by cmp xs) = mset xs"
proof (cases xs)
  case Nil
  then show ?thesis by (simp add: sort_by_def)
next
  case (Cons first ys)
  show ?thesis
  proof (cases ys)
    case Nil
    then show ?thesis using Cons by (simp add: sort_by_def)
  next
    case (Cons second rest)
    have "sort_by cmp xs =
            binaryInsertionSort cmp
              (if negative (cmp second first)
               then rev (take (2 + run_end cmp (negative (cmp second first)) second rest) xs)
               else take (2 + run_end cmp (negative (cmp second first)) second rest) xs)
              (drop (2 + run_end cmp (negative (cmp second first)) second rest) xs)"
      using \<open>xs = first # ys\<close> Cons by (simp add: sort_by_def Let_def)
    then show ?thesis
      by (simp add: mset_binaryInsertionSort mset_take_drop)
  qed
qed

lemma set_sort_by: "set (sort_by cmp xs) = set xs"
  using mset_sort_by [of cmp xs] by (metis set_mset_mset)

lemma length_sort_by: "length (sort_by cmp xs) = length xs"
  using mset_sort_by [of cmp xs] by (metis size_mset)






section \<open>Fetches that miss the cache\<close>

text \<open>
  What each fetcher returns and writes when the cache has no live entry and the request
  succeeds, and the example inputs run through them.
\<close>

lemma cache_get_later:
  "now \<le> later \<Longrightarrow> cache_get s now = None \<Longrightarrow> cache_get s later = None"
  by (auto simp: cache_get_def split: option.splits if_splits)

lemma catch_time_later:
  "now \<le> later \<Longrightarrow> now \<le> catch_time k now later"
  by (simp add: catch_time_def)

lemma empty_cache_misses:
  "cache_get (metals_prices empty_cache) now = None"
  "cache_get (stock_indices empty_cache) now = None"
  "cache_get (news empty_cache) now = None"
  "cache_get (macro_news empty_cache) now = None"
  "cache_get (inflation_news empty_cache) now = None"
  "cache_get (gold_news empty_cache) now = None"
  "cache_get (bullish_headlines empty_cache) now = None"
  "cache_get (performance_data empty_cache) now = None"
  by (simp_all add: cache_get_def empty_cache_def)

lemma fetchMetalsPrices_fresh:
  assumes "cache_get (metals_prices c) now = None" and "metals_try cfg resp = Inr m"
  shows "fetchMetalsPrices cfg resp now later c =
           (Inr m, c\<lparr>metals_prices := cache_set m (CACHE_TTL cfg) later\<rparr>)"
  using assms by (simp add: fetchMetalsPrices_def)

lemma fetchStockIndices_fresh:
  assumes "cache_get (stock_indices c) now = None" and "stocks_try quotes = Inr s"
  shows "fetchStockIndices cfg quotes now later c =
           (Inr s, c\<lparr>stock_indices := cache_set s (CACHE_TTL cfg) later\<rparr>)"
  using assms by (simp add: fetchStockIndices_def)

lemma fetchNews_fresh:
  assumes "cache_get (news c) now = None" and "news_request cfg resp = Inr raws"
  shows "fetchNews cfg resp now later c =
           (Inr (map to_news_item raws),
            c\<lparr>news := cache_set (map to_news_item raws) 43200 later\<rparr>)"
  using assms by (simp add: fetchNews_def Let_def)

lemma fetchMacroNews_fresh:
  assumes "cache_get (macro_news c) now = None" and "news_request cfg resp = Inr raws"
  shows "fetchMacroNews cfg resp now later c =
           (Inr (themed_articles raws),
            c\<lparr>macro_news := cache_set (themed_articles raws) 600 later\<rparr>)"
  using assms by (simp add: fetchMacroNews_def Let_def)

lemma fetchInflationNews_fresh:
  assumes "cache_get (inflation_news c) now = None" and "news_request cfg resp = Inr raws"
  shows "fetchInflationNews cfg resp now later c =
           (Inr (themed_articles raws),
            c\<lparr>inflation_news := cache_set (themed_articles raws) 600 later\<rparr>)"
  using assms by (simp add: fetchInflationNews_def Let_def)

lemma fetchGoldNews_fresh:
  assumes "cache_get (gold_news c) now = None" and "news_request cfg resp = Inr raws"
  shows "fetchGoldNews cfg resp now later c =
           (Inr (themed_articles raws),
            c\<lparr>gold_news := cache_set (themed_articles raws) 600 later\<rparr>)"
  using assms by (simp add: fetchGoldNews_def Let_def)

lemma fetchBullishHeadlines_fresh:
  assumes "cache_get (bullish_headlines c) now = None" and "news_request cfg resp = Inr raws"
  shows "fetchBullishHeadlines cfg resp now later c =
           (Inr (bullish_headlines_of raws),
            c\<lparr>bullish_headlines := cache_set (bullish_headlines_of raws) 600 later\<rparr>)"
  using assms by (simp add: fetchBullishHeadlines_def Let_def)

lemma performanceHandler_fresh:
  assumes "cache_get (performance_data c) now = None"
  shows "performanceHandler None historical now later c =
           (\<lparr>success = True, payload = assetData historical, error = None, lastUpdated = None,
              warnings = None\<rparr>,
            c\<lparr>performance_data := cache_set (assetData historical) 3600 later\<rparr>)"
  using assms by (simp add: performanceHandler_def Let_def)

lemma example_fetch:
  "fetchMetalsPrices example_config (Inr (example_metals g s)) 0 1 empty_cache =
     (Inr \<lparr>gold = \<lparr>mq_price = spot g None, mq_timestamp = Some 1700000000\<rparr>,
           silver = \<lparr>mq_price = spot s None, mq_timestamp = Some 1700000000\<rparr>,
           stale = False\<rparr>,
      empty_cache\<lparr>metals_prices := cache_set
          \<lparr>gold = \<lparr>mq_price = spot g None, mq_timestamp = Some 1700000000\<rparr>,
           silver = \<lparr>mq_price = spot s None, mq_timestamp = Some 1700000000\<rparr>,
           stale = False\<rparr> 30 1\<rparr>)"
  by (simp add: fetchMetalsPrices_def cache_get_def empty_cache_def metals_try_def
      example_config_def example_metals_def CACHE_TTL_def)

lemma example_metals_try:
  "metals_try example_config (Inr (example_metals (Some (Fin 2000)) (Some (Fin 25)))) =
     Inr \<lparr>gold = \<lparr>mq_price = Some (Fin 2000), mq_timestamp = Some 1700000000\<rparr>,
          silver = \<lparr>mq_price = Some (Fin 25), mq_timestamp = Some 1700000000\<rparr>,
          stale = False\<rparr>"
  by (simp add: metals_try_def example_config_def example_metals_def spot_def)

lemma example_stocks_try:
  "stocks_try (Inr (example_quote (Fin 5000), example_quote (Fin 40000))) =
     Inr \<lparr>sp500 = index_of_quote (example_quote (Fin 5000)),
          dow = index_of_quote (example_quote (Fin 40000)), stocks_stale = False\<rparr>"
  by (simp add: stocks_try_def)

lemma example_CACHE_TTL: "CACHE_TTL example_config = 30"
  by (simp add: CACHE_TTL_def example_config_def)

lemma example_news_request:
  "news_request example_config (Inr (example_news raws)) = Inr raws"
  by (simp add: news_request_def example_config_def example_news_def)

section \<open>The stale fallback\<close>

text \<open>
  The \<open>catch\<close> block of every fetcher reads the cache with the same \<open>get\<close> as the
  first line of the fetcher, at the same time or later. An entry that was absent or
  expired at the first read is so at the second, so the fallback branch returns nothing:
  a fetcher answers with the live entry, or else with the outcome of its request.
\<close>

lemma fetchMetalsPrices_result:
  assumes "now \<le> later"
  shows "fst (fetchMetalsPrices cfg resp now later c) =
           (case cache_get (metals_prices c) now of
              Some cached \<Rightarrow> Inr cached
            | None \<Rightarrow> metals_try cfg resp)"
  using cache_get_later [OF catch_time_later [OF assms], of "metals_prices c" "METALS_API_KEY cfg"]
  by (auto simp: fetchMetalsPrices_def split: option.splits sum.splits)

lemma fetchStockIndices_result:
  assumes "now \<le> later"
  shows "fst (fetchStockIndices cfg quotes now later c) =
           (case cache_get (stock_indices c) now of
              Some cached \<Rightarrow> Inr cached
            | None \<Rightarrow> stocks_try quotes)"
  using cache_get_later [OF assms, of "stock_indices c"]
  by (auto simp: fetchStockIndices_def split: option.splits sum.splits)

lemma fetchNews_result:
  assumes "now \<le> later"
  shows "fst (fetchNews cfg resp now later c) =
           (case cache_get (news c) now of
              Some cached \<Rightarrow> Inr cached
            | None \<Rightarrow> map_sum id (map to_news_item) (news_request cfg resp))"
  using cache_get_later [OF catch_time_later [OF assms], of "news c" "NEWS_API_KEY cfg"]
  by (auto simp: fetchNews_def Let_def split: option.splits sum.splits)

lemma fetchMacroNews_result:
  assumes "now \<le> later"
  shows "fst (fetchMacroNews cfg resp now later c) =
           (case cache_get (macro_news c) now of
              Some cached \<Rightarrow> Inr cached
            | None \<Rightarrow> map_sum id themed_articles (news_request cfg resp))"
  using cache_get_later [OF catch_time_later [OF assms], of "macro_news c" "NEWS_API_KEY cfg"]
  by (auto simp: fetchMacroNews_def Let_def split: option.splits sum.splits)

lemma fetchInflationNews_result:
  assumes "now \<le> later"
  shows "fst (fetchInflationNews cfg resp now later c) =
           (case cache_get (inflation_news c) now of
              Some cached \<Rightarrow> Inr cached
            | None \<Rightarrow> map_sum id themed_articles (news_request cfg resp))"
  using cache_get_later [OF catch_time_later [OF assms], of "inflation_news c" "NEWS_API_KEY cfg"]
  by (auto simp: fetchInflationNews_def Let_def split: option.splits sum.splits)

lemma fetchGoldNews_result:
  assumes "now \<le> later"
  shows "fst (fetchGoldNews cfg resp now later c) =
           (case cache_get (gold_news c) now of
              Some cached \<Rightarrow> Inr cached
            | None \<Rightarrow> map_sum id themed_articles (news_request cfg resp))"
  using cache_get_later [OF catch_time_later [OF assms], of "gold_news c" "NEWS_API_KEY cfg"]
  by (auto simp: fetchGoldNews_def Let_def split: option.splits sum.splits)

lemma fetchBullishHeadlines_result:
  assumes "now \<le> later"
  shows "fst (fetchBullishHeadlines cfg resp now later c) =
           (case cache_get (bullish_headlines c) now of
              Some cached \<Rightarrow> Inr cached
            | None \<Rightarrow> map_sum id bullish_headlines_of (news_request cfg resp))"
  using cache_get_later [OF catch_time_later [OF assms], of "bullish_headlines c" "NEWS_API_KEY cfg"]
  by (auto simp: fetchBullishHeadlines_def Let_def split: option.splits sum.splits)

text \<open>
  Claim C1. The claim is that a fetch failure for a key written earlier returns the last
  stored value as a stale fallback, also after the TTL has elapsed. The fetcher does
  otherwise: the metals entry written at time 1000 with the default TTL of 30 seconds
  has expired at time 31001; the request made then times out, the \<open>catch\<close> block finds
  no entry, and the error is thrown although the key was written before. The prices
  endpoint answers without metals data and with the warning of a failed source, not the
  warning of stale data.
\<close>

theorem expired_entry_is_not_served:
  "fetchMetalsPrices example_config (Inr (example_metals (Some (Fin 2000)) (Some (Fin 25))))
       0 1000 empty_cache = (Inr example_result, example_cache)
   \<and> fetchMetalsPrices example_config (Inl (Error ''timeout of 10000ms exceeded''))
       31001 41001 example_cache = (Inl (Error ''timeout of 10000ms exceeded''), example_cache)
   \<and> data_gold (payload (fst (pricesHandler example_config
         (Inl (Error ''timeout of 10000ms exceeded'')) (Inl (Error ''quote failed''))
         31001 41001 example_cache))) = None
   \<and> warnings (fst (pricesHandler example_config
         (Inl (Error ''timeout of 10000ms exceeded'')) (Inl (Error ''quote failed''))
         31001 41001 example_cache)) =
       Some [''Unable to fetch metals prices'', ''Unable to fetch stock indices'']"
  by (simp add: fetchMetalsPrices_def fetchStockIndices_def pricesHandler_def cache_get_def
      cache_set_def empty_cache_def example_cache_def example_result_def metals_try_def
      stocks_try_def example_config_def example_metals_def CACHE_TTL_def spot_def catch_time_def)

section \<open>The envelopes under failure\<close>

lemma fetchHistory_failed: "historical s = Inl e \<Longrightarrow> fetchHistory historical s n = None"
  by (simp add: fetchHistory_def)

lemma fetchHistory_short:
  "historical s = Inr h \<Longrightarrow> length h < 2 \<Longrightarrow> fetchHistory historical s n = None"
  by (simp add: fetchHistory_def)

lemma assetData_all_failed:
  assumes "\<forall>s. (\<exists>e. historical s = Inl e) \<or> (\<exists>h. historical s = Inr h \<and> length h < 2)"
  shows "assetData historical =
           [\<lparr>name = ''CDs/Savings'', return = Fin 49\<rparr>, \<lparr>name = ''Cash (USD)'', return = Fin (- 44)\<rparr>]"
proof -
  have "fetchHistory historical s n = None" for s n
    using assms fetchHistory_failed fetchHistory_short by blast
  then show ?thesis
    unfolding assetData_def by (simp add: sort_by_def synthetic_order del: js_sub.simps)
qed




















section \<open>The metals tiles\<close>

lemma pricesHandler_metals:
  assumes "fetchMetalsPrices cfg resp now later c = (Inr m, c1)"
  shows "data_gold (payload (fst (pricesHandler cfg resp quotes now later c))) =
           Some (gold_tile (gold m))"
    and "data_silver (payload (fst (pricesHandler cfg resp quotes now later c))) =
           Some (silver_tile (silver m))"
  using assms by (simp_all add: pricesHandler_def Let_def split: prod.splits)

text \<open>
  Claim C3. Whenever the metals fetch is fulfilled, the gold tile of \<open>/api/prices\<close>
  carries the spot price \<open>p\<close> with \<open>previousClose = p * 0.998\<close>, \<open>change = p * 0.002\<close>
  and \<open>changePercent = 0.2\<close>, and the silver tile carries \<open>q\<close> with \<open>q * 0.995\<close>,
  \<open>q * 0.005\<close> and \<open>0.5\<close>. At the gold price 2000 the two products are exactly 1996
  and 4 in binary64 arithmetic.
\<close>

theorem metals_synthetic_change:
  assumes "fetchMetalsPrices cfg resp now later c = (Inr m, c1)"
  shows "(\<forall>p. mq_price (gold m) = Some p \<longrightarrow>
            data_gold (payload (fst (pricesHandler cfg resp quotes now later c))) =
              Some \<lparr>symbol = ''XAU'', tile_name = ''Gold'', price = Some p,
                    previousClose = Some (js_mul p (lit 0.998)),
                    change = Some (js_mul p (lit 0.002)),
                    changePercent = Some (lit 0.2),
                    marketState = None, unit = ''USD/oz''\<rparr>)
       \<and> (\<forall>q. mq_price (silver m) = Some q \<longrightarrow>
            data_silver (payload (fst (pricesHandler cfg resp quotes now later c))) =
              Some \<lparr>symbol = ''XAG'', tile_name = ''Silver'', price = Some q,
                    previousClose = Some (js_mul q (lit 0.995)),
                    change = Some (js_mul q (lit 0.005)),
                    changePercent = Some (lit 0.5),
                    marketState = None, unit = ''USD/oz''\<rparr>)
       \<and> js_mul (Fin 2000) (lit 0.998) = Fin 1996
       \<and> js_mul (Fin 2000) (lit 0.002) = Fin 4"
proof (intro conjI)
  show "\<forall>p. mq_price (gold m) = Some p \<longrightarrow>
            data_gold (payload (fst (pricesHandler cfg resp quotes now later c))) =
              Some \<lparr>symbol = ''XAU'', tile_name = ''Gold'', price = Some p,
                    previousClose = Some (js_mul p (lit 0.998)),
                    change = Some (js_mul p (lit 0.002)),
                    changePercent = Some (lit 0.2),
                    marketState = None, unit = ''USD/oz''\<rparr>"
    using pricesHandler_metals(1) [OF assms, of quotes] by (simp add: gold_tile_def)
  show "\<forall>q. mq_price (silver m) = Some q \<longrightarrow>
            data_silver (payload (fst (pricesHandler cfg resp quotes now later c))) =
              Some \<lparr>symbol = ''XAG'', tile_name = ''Silver'', price = Some q,
                    previousClose = Some (js_mul q (lit 0.995)),
                    change = Some (js_mul q (lit 0.005)),
                    changePercent = Some (lit 0.5),
                    marketState = None, unit = ''USD/oz''\<rparr>"
    using pricesHandler_metals(2) [OF assms, of quotes] by (simp add: silver_tile_def)
  show "js_mul (Fin 2000) (lit 0.998) = Fin 1996"
    by (rule gold_2000_previousClose)
  show "js_mul (Fin 2000) (lit 0.002) = Fin 4"
    by (rule gold_2000_change)
qed

theorem metals_synthetic_change_witness:
  "data_gold (payload (fst (pricesHandler example_config
       (Inr (example_metals (Some (Fin 2000)) (Some (Fin 25))))
       (Inl (Error ''timeout'')) 0 1 empty_cache))) =
     Some \<lparr>symbol = ''XAU'', tile_name = ''Gold'', price = Some (Fin 2000),
           previousClose = Some (Fin 1996), change = Some (Fin 4),
           changePercent = Some (lit 0.2), marketState = None, unit = ''USD/oz''\<rparr>"
  using metals_synthetic_change [OF example_fetch,
      of "Some (Fin 2000)" "Some (Fin 25)" "Inl (Error ''timeout'')"]
  by (simp add: spot_def)

lemma spot_None:
  assumes "\<forall>x. direct = Some x \<longrightarrow> \<not> truthy x" and "\<forall>x. inverted = Some x \<longrightarrow> \<not> truthy x"
  shows "spot direct inverted = None"
  using assms by (auto simp: spot_def split: option.splits)

lemma gold_tile_null:
  "mq_price g = None \<Longrightarrow> gold_tile g = \<lparr>symbol = ''XAU'', tile_name = ''Gold'', price = None,
                    previousClose = Some (Fin 0), change = Some (Fin 0),
                    changePercent = Some (lit 0.2), marketState = None, unit = ''USD/oz''\<rparr>"
  unfolding gold_tile_def by (simp only: toNumber.simps js_mul_0_lit)

lemma silver_tile_null:
  "mq_price g = None \<Longrightarrow> silver_tile g = \<lparr>symbol = ''XAG'', tile_name = ''Silver'', price = None,
                    previousClose = Some (Fin 0), change = Some (Fin 0),
                    changePercent = Some (lit 0.5), marketState = None, unit = ''USD/oz''\<rparr>"
  unfolding silver_tile_def by (simp only: toNumber.simps js_mul_0_lit)

text \<open>
  Claim C10. When the metals API answers with success but its rates hold neither a
  truthy \<open>USDXAU\<close> nor a truthy \<open>XAU\<close>, the gold price is \<open>null\<close>, and the fresh
  \<open>/api/prices\<close> response still has a gold tile: its price is \<open>null\<close>, its
  \<open>previousClose\<close> and \<open>change\<close> are 0 and its \<open>changePercent\<close> is the constant 0.2.
  The same holds for silver with \<open>USDXAG\<close>, \<open>XAG\<close> and 0.5.
\<close>

theorem null_price_still_populated:
  assumes miss: "cache_get (metals_prices c) now = None"
      and key: "\<not> missing (METALS_API_KEY cfg)"
      and ok: "api_success d"
      and rates: "api_rates d = Some r"
  shows "((\<forall>x. USDXAU r = Some x \<longrightarrow> \<not> truthy x) \<and> (\<forall>x. XAU r = Some x \<longrightarrow> \<not> truthy x) \<longrightarrow>
            data_gold (payload (fst (pricesHandler cfg (Inr d) quotes now later c))) =
              Some \<lparr>symbol = ''XAU'', tile_name = ''Gold'', price = None,
                    previousClose = Some (Fin 0), change = Some (Fin 0),
                    changePercent = Some (lit 0.2), marketState = None, unit = ''USD/oz''\<rparr>)
       \<and> ((\<forall>x. USDXAG r = Some x \<longrightarrow> \<not> truthy x) \<and> (\<forall>x. XAG r = Some x \<longrightarrow> \<not> truthy x) \<longrightarrow>
            data_silver (payload (fst (pricesHandler cfg (Inr d) quotes now later c))) =
              Some \<lparr>symbol = ''XAG'', tile_name = ''Silver'', price = None,
                    previousClose = Some (Fin 0), change = Some (Fin 0),
                    changePercent = Some (lit 0.5), marketState = None, unit = ''USD/oz''\<rparr>)"
proof -
  define m where "m = \<lparr>gold = \<lparr>mq_price = spot (USDXAU r) (XAU r), mq_timestamp = api_timestamp d\<rparr>,
                   silver = \<lparr>mq_price = spot (USDXAG r) (XAG r), mq_timestamp = api_timestamp d\<rparr>,
                   stale = False\<rparr>"
  have tried: "metals_try cfg (Inr d) = Inr m"
    using key ok rates by (simp add: metals_try_def m_def)
  note tiles = pricesHandler_metals [OF fetchMetalsPrices_fresh [OF miss tried], of quotes later]
  show ?thesis
  proof (intro conjI impI)
    assume "(\<forall>x. USDXAU r = Some x \<longrightarrow> \<not> truthy x) \<and> (\<forall>x. XAU r = Some x \<longrightarrow> \<not> truthy x)"
    then have "mq_price (gold m) = None"
      by (simp add: m_def spot_None)
    then show "data_gold (payload (fst (pricesHandler cfg (Inr d) quotes now later c))) =
              Some \<lparr>symbol = ''XAU'', tile_name = ''Gold'', price = None,
                    previousClose = Some (Fin 0), change = Some (Fin 0),
                    changePercent = Some (lit 0.2), marketState = None, unit = ''USD/oz''\<rparr>"
      using tiles(1) gold_tile_null by simp
  next
    assume "(\<forall>x. USDXAG r = Some x \<longrightarrow> \<not> truthy x) \<and> (\<forall>x. XAG r = Some x \<longrightarrow> \<not> truthy x)"
    then have "mq_price (silver m) = None"
      by (simp add: m_def spot_None)
    then show "data_silver (payload (fst (pricesHandler cfg (Inr d) quotes now later c))) =
              Some \<lparr>symbol = ''XAG'', tile_name = ''Silver'', price = None,
                    previousClose = Some (Fin 0), change = Some (Fin 0),
                    changePercent = Some (lit 0.5), marketState = None, unit = ''USD/oz''\<rparr>"
      using tiles(2) silver_tile_null by simp
  qed
qed

theorem null_price_still_populated_witness:
  "data_gold (payload (fst (pricesHandler example_config (Inr (example_metals None (Some (Fin 0))))
       (Inl (Error ''timeout'')) 0 1 empty_cache))) =
     Some \<lparr>symbol = ''XAU'', tile_name = ''Gold'', price = None,
           previousClose = Some (Fin 0), change = Some (Fin 0),
           changePercent = Some (lit 0.2), marketState = None, unit = ''USD/oz''\<rparr>
   \<and> data_silver (payload (fst (pricesHandler example_config (Inr (example_metals None (Some (Fin 0))))
       (Inl (Error ''timeout'')) 0 1 empty_cache))) =
     Some \<lparr>symbol = ''XAG'', tile_name = ''Silver'', price = None,
           previousClose = Some (Fin 0), change = Some (Fin 0),
           changePercent = Some (lit 0.5), marketState = None, unit = ''USD/oz''\<rparr>"
  using null_price_still_populated [of empty_cache 0 example_config "example_metals None (Some (Fin 0))"
      "\<lparr>USDXAU = None, XAU = None, USDXAG = Some (Fin 0), XAG = None\<rparr>" "Inl (Error ''timeout'')" 1]
  by (simp add: cache_get_def empty_cache_def example_config_def example_metals_def)

section \<open>Deduplication of news\<close>

lemma dedupe_keys_fresh:
  "titleKey ` set (dedupe seen raws) = titleKey ` set raws - seen"
  by (induction raws arbitrary: seen) (auto simp: Let_def)

lemma dedupe_keys_distinct:
  "distinct (map titleKey (dedupe seen raws))"
proof (induction raws arbitrary: seen)
  case Nil
  show ?case by simp
next
  case (Cons a as)
  have "titleKey a \<notin> titleKey ` set (dedupe (insert (titleKey a) seen) as)"
    by (simp add: dedupe_keys_fresh)
  with Cons show ?case
    by (simp add: Let_def)
qed

lemma upt_0_Suc: "[0..<Suc n] = 0 # map Suc [0..<n]"
  by (simp add: upt_conv_Cons map_Suc_upt del: upt_Suc)

lemma dedupe_first_occurrences:
  "dedupe seen raws =
     map (\<lambda>i. raws ! i)
       (filter (\<lambda>i. titleKey (raws ! i) \<notin> seen
                    \<and> (\<forall>j<i. titleKey (raws ! j) \<noteq> titleKey (raws ! i)))
          [0..<length raws])"
proof (induction raws arbitrary: seen)
  case Nil
  show ?case by simp
next
  case (Cons a as)
  let ?P = "\<lambda>s i. titleKey (as ! i) \<notin> s \<and> (\<forall>j<i. titleKey (as ! j) \<noteq> titleKey (as ! i))"
  have shift: "filter (\<lambda>i. titleKey ((a # as) ! i) \<notin> seen
                    \<and> (\<forall>j<i. titleKey ((a # as) ! j) \<noteq> titleKey ((a # as) ! i)))
                 (map Suc [0..<length as]) =
               map Suc (filter (?P (insert (titleKey a) seen)) [0..<length as])"
    by (auto simp: filter_map o_def All_less_Suc2 intro!: arg_cong [where f = "map Suc"] filter_cong)
  show ?case
  proof (cases "titleKey a \<in> seen")
    case True
    have "filter (?P (insert (titleKey a) seen)) [0..<length as] = filter (?P seen) [0..<length as]"
      using True by (auto intro!: filter_cong)
    then show ?thesis
      using True Cons.IH [of seen]
      by (simp only: length_Cons upt_0_Suc filter.simps shift) (simp add: o_def)
  next
    case False
    then show ?thesis
      using Cons.IH [of "insert (titleKey a) seen"]
      by (simp only: length_Cons upt_0_Suc filter.simps shift) (simp add: o_def Let_def)
  qed
qed

lemma dedupeHeadlines_dedupe:
  "dedupeHeadlines seen raws = dedupe seen (filter (\<lambda>a. \<not> removed (raw_title a)) raws)"
  by (induction raws arbitrary: seen) (auto simp: Let_def)

lemma themed_keys: "map (key_of \<circ> title) (themed_articles raws) = take 10 (map titleKey (dedupe {} raws))"
  by (simp add: themed_articles_def take_map o_def to_article_def titleKey_def)

lemma headline_keys:
  "map (key_of \<circ> hl_title) (bullish_headlines_of raws) =
     take 25 (map titleKey (dedupeHeadlines {} raws))"
  by (simp add: bullish_headlines_of_def take_map o_def to_headline_def titleKey_def)

text \<open>
  Claim C4. In the four fetchers that deduplicate, the key of an article is its title
  lowercased, cut to its first 50 characters and stripped of everything but \<open>a-z\<close> and
  \<open>0-9\<close>. The filter keeps, in the order of the input, exactly the articles whose key
  does not occur earlier in the fetch (for the headlines: among the articles whose title
  is not redacted), so every key of the input is kept once; the fetcher returns the
  projection of the first 10 (headlines: 25) of them, and no two returned entries have
  the same key.
\<close>

theorem news_deduplication:
  "titleKey a = map_option (\<lambda>t. filter alnum (take 50 (toLowerCase t))) (raw_title a)
   \<and> distinct (map titleKey (dedupe {} raws))
   \<and> titleKey ` set (dedupe {} raws) = titleKey ` set raws
   \<and> dedupe {} raws =
        map (\<lambda>i. raws ! i)
          (filter (\<lambda>i. \<forall>j<i. titleKey (raws ! j) \<noteq> titleKey (raws ! i)) [0..<length raws])
   \<and> dedupeHeadlines {} raws = dedupe {} (filter (\<lambda>a. \<not> removed (raw_title a)) raws)
   \<and> (cache_get (macro_news c) now = None \<and> news_request cfg resp = Inr raws \<longrightarrow>
        fst (fetchMacroNews cfg resp now later c) =
          Inr (take 10 (map to_article (dedupe {} raws))))
   \<and> (cache_get (inflation_news c) now = None \<and> news_request cfg resp = Inr raws \<longrightarrow>
        fst (fetchInflationNews cfg resp now later c) =
          Inr (take 10 (map to_article (dedupe {} raws))))
   \<and> (cache_get (gold_news c) now = None \<and> news_request cfg resp = Inr raws \<longrightarrow>
        fst (fetchGoldNews cfg resp now later c) =
          Inr (take 10 (map to_article (dedupe {} raws))))
   \<and> (cache_get (bullish_headlines c) now = None \<and> news_request cfg resp = Inr raws \<longrightarrow>
        fst (fetchBullishHeadlines cfg resp now later c) =
          Inr (take 25 (map to_headline (dedupeHeadlines {} raws))))
   \<and> distinct (map (key_of \<circ> title) (take 10 (map to_article (dedupe {} raws))))
   \<and> distinct (map (key_of \<circ> hl_title) (take 25 (map to_headline (dedupeHeadlines {} raws))))"
proof (intro conjI impI)
  show "titleKey a = map_option (\<lambda>t. filter alnum (take 50 (toLowerCase t))) (raw_title a)"
    by (simp add: titleKey_def key_of_def)
  show "distinct (map titleKey (dedupe {} raws))"
    by (rule dedupe_keys_distinct)
  show "titleKey ` set (dedupe {} raws) = titleKey ` set raws"
    by (simp add: dedupe_keys_fresh)
  show "dedupe {} raws =
        map (\<lambda>i. raws ! i)
          (filter (\<lambda>i. \<forall>j<i. titleKey (raws ! j) \<noteq> titleKey (raws ! i)) [0..<length raws])"
    using dedupe_first_occurrences [of "{}" raws] by simp
  show "dedupeHeadlines {} raws = dedupe {} (filter (\<lambda>a. \<not> removed (raw_title a)) raws)"
    by (rule dedupeHeadlines_dedupe)
  show "distinct (map (key_of \<circ> title) (take 10 (map to_article (dedupe {} raws))))"
    using themed_keys [of raws] dedupe_keys_distinct [of "{}" raws]
    by (simp add: themed_articles_def distinct_take)
  show "distinct (map (key_of \<circ> hl_title) (take 25 (map to_headline (dedupeHeadlines {} raws))))"
    using headline_keys [of raws] dedupe_keys_distinct [of "{}" "filter (\<lambda>a. \<not> removed (raw_title a)) raws"]
    by (simp add: bullish_headlines_of_def dedupeHeadlines_dedupe distinct_take)
qed (simp_all add: fetchMacroNews_def fetchInflationNews_def fetchGoldNews_def
      fetchBullishHeadlines_def themed_articles_def bullish_headlines_of_def Let_def)

lemma example_keys:
  "titleKey (example_article ''Gold hits record high!'' u) = Some ''goldhitsrecordhigh''"
  "titleKey (example_article ''GOLD hits record-high'' u) = Some ''goldhitsrecordhigh''"
  "titleKey (example_article ''Silver slips'' u) = Some ''silverslips''"
  by (simp_all add: titleKey_def key_of_def example_article_def toLowerCase_def alnum_def)

lemma example_dedupe:
  "dedupe {} [example_article ''Gold hits record high!'' ''u1'',
              example_article ''GOLD hits record-high'' ''u2'',
              example_article ''Silver slips'' ''u3''] =
     [example_article ''Gold hits record high!'' ''u1'', example_article ''Silver slips'' ''u3'']"
  by (simp add: example_keys)

lemma example_not_removed:
  "\<not> removed (raw_title (example_article ''Gold hits record high!'' u))"
  "\<not> removed (raw_title (example_article ''GOLD hits record-high'' u))"
  "\<not> removed (raw_title (example_article ''Silver slips'' u))"
  by (simp_all add: example_article_def)

theorem news_deduplication_witness:
  "fst (fetchMacroNews example_config
       (Inr (example_news [example_article ''Gold hits record high!'' ''u1'',
                           example_article ''GOLD hits record-high'' ''u2'',
                           example_article ''Silver slips'' ''u3'']))
       0 1 empty_cache) =
     Inr [to_article (example_article ''Gold hits record high!'' ''u1''),
          to_article (example_article ''Silver slips'' ''u3'')]
   \<and> fst (fetchBullishHeadlines example_config
       (Inr (example_news [example_article ''Gold hits record high!'' ''u1'',
                           example_article ''GOLD hits record-high'' ''u2'',
                           example_article ''Silver slips'' ''u3'']))
       0 1 empty_cache) =
     Inr [to_headline (example_article ''Gold hits record high!'' ''u1''),
          to_headline (example_article ''Silver slips'' ''u3'')]"
  using news_deduplication [of "example_article ''Silver slips'' ''u3''"
      "[example_article ''Gold hits record high!'' ''u1'',
        example_article ''GOLD hits record-high'' ''u2'',
        example_article ''Silver slips'' ''u3'']"
      empty_cache 0 example_config
      "Inr (example_news [example_article ''Gold hits record high!'' ''u1'',
                          example_article ''GOLD hits record-high'' ''u2'',
                          example_article ''Silver slips'' ''u3''])" 1]
  by (simp add: empty_cache_misses example_news_request example_dedupe example_not_removed
      del: dedupe.simps dedupeHeadlines.simps)

section \<open>Redacted articles\<close>

lemma key_of_Removed: "key_of (Some ''[Removed]'') = Some ''removed''"
  by (simp add: key_of_def toLowerCase_def alnum_def)

lemma removed_Removed: "removed (Some ''[Removed]'')"
  by simp

lemma example_removed_themed:
  "themed_articles [example_removed, example_untitled] =
     [to_article example_removed, to_article example_untitled]"
  by (simp add: themed_articles_def titleKey_def example_removed_def example_untitled_def
      key_of_Removed key_of_def)

lemma example_removed_headlines:
  "bullish_headlines_of [example_removed, example_untitled] = []"
  by (simp add: bullish_headlines_of_def titleKey_def example_removed_def
      example_untitled_def key_of_Removed key_of_def)

text \<open>
  Claim C5. The claim is that every news fetcher drops the articles whose title is
  \<open>null\<close> or carries the provider's \<open>[Removed]\<close> marker. Only \<open>fetchBullishHeadlines\<close>
  tests the title: given one article of each kind, it returns neither, while
  \<open>fetchNews\<close>, \<open>fetchMacroNews\<close>, \<open>fetchInflationNews\<close> and \<open>fetchGoldNews\<close> return
  both.
\<close>

theorem removed_articles_pass_through:
  "fst (fetchNews example_config (Inr (example_news [example_removed, example_untitled]))
        0 1 empty_cache) = Inr [to_news_item example_removed, to_news_item example_untitled]
   \<and> fst (fetchMacroNews example_config (Inr (example_news [example_removed, example_untitled]))
        0 1 empty_cache) = Inr [to_article example_removed, to_article example_untitled]
   \<and> fst (fetchInflationNews example_config (Inr (example_news [example_removed, example_untitled]))
        0 1 empty_cache) = Inr [to_article example_removed, to_article example_untitled]
   \<and> fst (fetchGoldNews example_config (Inr (example_news [example_removed, example_untitled]))
        0 1 empty_cache) = Inr [to_article example_removed, to_article example_untitled]
   \<and> fst (fetchBullishHeadlines example_config (Inr (example_news [example_removed, example_untitled]))
        0 1 empty_cache) = Inr []
   \<and> title (to_article example_removed) = Some ''[Removed]''
   \<and> title (to_article example_untitled) = None"
  by (simp add: fetchNews_fresh fetchMacroNews_fresh fetchInflationNews_fresh fetchGoldNews_fresh
      fetchBullishHeadlines_fresh empty_cache_misses example_news_request
      example_removed_themed example_removed_headlines)
    (simp add: to_article_def example_removed_def example_untitled_def)

section \<open>Cache writes\<close>

text \<open>
  Claim C6. A fetch that misses the cache and succeeds writes its result with the
  source's TTL: the configured default for metals prices and equity indices (30 seconds
  when \<open>CACHE_TTL\<close> is unset), 43200 seconds for the general news feed, 600 seconds for
  the macro, inflation and gold news and the bullish headlines, and 3600 seconds for the
  historical performance.
\<close>

theorem cache_write_ttls:
  "(cache_get (metals_prices c) now = None \<and> metals_try cfg resp = Inr m \<longrightarrow>
      metals_prices (snd (fetchMetalsPrices cfg resp now later c)) =
        Some \<lparr>val = m, storedAt = later, ttlSeconds = CACHE_TTL cfg\<rparr>)
   \<and> (cache_get (stock_indices c) now = None \<and> stocks_try quotes = Inr s \<longrightarrow>
      stock_indices (snd (fetchStockIndices cfg quotes now later c)) =
        Some \<lparr>val = s, storedAt = later, ttlSeconds = CACHE_TTL cfg\<rparr>)
   \<and> (env_CACHE_TTL cfg = None \<longrightarrow> CACHE_TTL cfg = 30)
   \<and> (\<forall>n. env_CACHE_TTL cfg = Some n \<and> n \<noteq> 0 \<longrightarrow> CACHE_TTL cfg = n)
   \<and> (cache_get (news c) now = None \<and> news_request cfg nresp = Inr raws \<longrightarrow>
      news (snd (fetchNews cfg nresp now later c)) =
        Some \<lparr>val = map to_news_item raws, storedAt = later, ttlSeconds = 43200\<rparr>)
   \<and> (cache_get (macro_news c) now = None \<and> news_request cfg nresp = Inr raws \<longrightarrow>
      macro_news (snd (fetchMacroNews cfg nresp now later c)) =
        Some \<lparr>val = themed_articles raws, storedAt = later, ttlSeconds = 600\<rparr>)
   \<and> (cache_get (inflation_news c) now = None \<and> news_request cfg nresp = Inr raws \<longrightarrow>
      inflation_news (snd (fetchInflationNews cfg nresp now later c)) =
        Some \<lparr>val = themed_articles raws, storedAt = later, ttlSeconds = 600\<rparr>)
   \<and> (cache_get (gold_news c) now = None \<and> news_request cfg nresp = Inr raws \<longrightarrow>
      gold_news (snd (fetchGoldNews cfg nresp now later c)) =
        Some \<lparr>val = themed_articles raws, storedAt = later, ttlSeconds = 600\<rparr>)
   \<and> (cache_get (bullish_headlines c) now = None \<and> news_request cfg nresp = Inr raws \<longrightarrow>
      bullish_headlines (snd (fetchBullishHeadlines cfg nresp now later c)) =
        Some \<lparr>val = bullish_headlines_of raws, storedAt = later, ttlSeconds = 600\<rparr>)
   \<and> (cache_get (performance_data c) now = None \<longrightarrow>
      performance_data (snd (performanceHandler None historical now later c)) =
        Some \<lparr>val = assetData historical, storedAt = later, ttlSeconds = 3600\<rparr>)"
  by (simp add: fetchMetalsPrices_fresh fetchStockIndices_fresh fetchNews_fresh
      fetchMacroNews_fresh fetchInflationNews_fresh fetchGoldNews_fresh
      fetchBullishHeadlines_fresh performanceHandler_fresh cache_set_def CACHE_TTL_def)

theorem cache_write_ttls_witness:
  "map_option ttlSeconds (metals_prices (snd (fetchMetalsPrices example_config
       (Inr (example_metals (Some (Fin 2000)) (Some (Fin 25)))) 0 1 empty_cache))) = Some 30
   \<and> map_option ttlSeconds (stock_indices (snd (fetchStockIndices example_config
       (Inr (example_quote (Fin 5000), example_quote (Fin 40000))) 0 1 empty_cache))) = Some 30
   \<and> map_option ttlSeconds (news (snd (fetchNews example_config
       (Inr (example_news [example_untitled])) 0 1 empty_cache))) = Some 43200
   \<and> map_option ttlSeconds (macro_news (snd (fetchMacroNews example_config
       (Inr (example_news [example_untitled])) 0 1 empty_cache))) = Some 600
   \<and> map_option ttlSeconds (inflation_news (snd (fetchInflationNews example_config
       (Inr (example_news [example_untitled])) 0 1 empty_cache))) = Some 600
   \<and> map_option ttlSeconds (gold_news (snd (fetchGoldNews example_config
       (Inr (example_news [example_untitled])) 0 1 empty_cache))) = Some 600
   \<and> map_option ttlSeconds (bullish_headlines (snd (fetchBullishHeadlines example_config
       (Inr (example_news [example_untitled])) 0 1 empty_cache))) = Some 600
   \<and> map_option ttlSeconds (performance_data (snd (performanceHandler None
       (\<lambda>s. Inl (Error ''Not Found'')) 0 1 empty_cache))) = Some 3600"
  using cache_write_ttls [of empty_cache 0 example_config
      "Inr (example_metals (Some (Fin 2000)) (Some (Fin 25)))"
      "\<lparr>gold = \<lparr>mq_price = Some (Fin 2000), mq_timestamp = Some 1700000000\<rparr>,
        silver = \<lparr>mq_price = Some (Fin 25), mq_timestamp = Some 1700000000\<rparr>, stale = False\<rparr>"
      1 "Inr (example_quote (Fin 5000), example_quote (Fin 40000))"
      "\<lparr>sp500 = index_of_quote (example_quote (Fin 5000)),
        dow = index_of_quote (example_quote (Fin 40000)), stocks_stale = False\<rparr>"
      "Inr (example_news [example_untitled])" "[example_untitled]"
      "\<lambda>s. Inl (Error ''Not Found'')"]
  by (simp add: empty_cache_misses example_news_request example_metals_try example_stocks_try
      example_CACHE_TTL)

section \<open>The performance endpoint\<close>









lemma assetData_synthetic:
  "\<lparr>name = ''CDs/Savings'', return = Fin 49\<rparr> \<in> set (assetData historical)"
  "\<lparr>name = ''Cash (USD)'', return = Fin (- 44)\<rparr> \<in> set (assetData historical)"
  "2 \<le> length (assetData historical)"
  unfolding assetData_def Let_def set_sort_by length_sort_by by simp_all

lemma example_assetData:
  "assetData example_historical =
     [\<lparr>name = ''S&P 500'', return = Fin 150\<rparr>, \<lparr>name = ''Gold'', return = Fin 50\<rparr>,
      \<lparr>name = ''CDs/Savings'', return = Fin 49\<rparr>, \<lparr>name = ''Bonds'', return = Fin 10\<rparr>,
      \<lparr>name = ''Cash (USD)'', return = Fin (- 44)\<rparr>]"
  by code_simp





text \<open>
  With a NaN return in the list, the order is what the insertion steps of the sort make
  of it: here the first run is Dow Jones (20) and Real Estate (80), reversed; Bonds (NaN)
  is put behind them, CDs/Savings (49) between Real Estate and Dow Jones, and
  Cash (USD) at the end.
\<close>

lemma example_inconsistent_assetData:
  "assetData example_inconsistent =
     [\<lparr>name = ''Real Estate'', return = Fin 80\<rparr>, \<lparr>name = ''CDs/Savings'', return = Fin 49\<rparr>,
      \<lparr>name = ''Dow Jones'', return = Fin 20\<rparr>, \<lparr>name = ''Bonds'', return = NaN\<rparr>,
      \<lparr>name = ''Cash (USD)'', return = Fin (- 44)\<rparr>]"
  by code_simp




lemma respond_cache: "snd (respond r later) = snd r"
  by (cases r) (simp add: respond_def split: sum.splits)

lemma fetchers_keep_performance_data:
  "performance_data (snd (fetchMetalsPrices cfg resp now later c)) = performance_data c"
  "performance_data (snd (fetchStockIndices cfg quotes now later c)) = performance_data c"
  "performance_data (snd (fetchNews cfg nresp now later c)) = performance_data c"
  "performance_data (snd (fetchMacroNews cfg nresp now later c)) = performance_data c"
  "performance_data (snd (fetchInflationNews cfg nresp now later c)) = performance_data c"
  "performance_data (snd (fetchGoldNews cfg nresp now later c)) = performance_data c"
  "performance_data (snd (fetchBullishHeadlines cfg nresp now later c)) = performance_data c"
  by (simp_all add: fetchMetalsPrices_def fetchStockIndices_def fetchNews_def fetchMacroNews_def
      fetchInflationNews_def fetchGoldNews_def fetchBullishHeadlines_def Let_def
      split: option.splits sum.splits)

lemma pricesHandler_cache:
  "snd (pricesHandler cfg resp quotes now later c) =
     snd (fetchStockIndices cfg quotes now later (snd (fetchMetalsPrices cfg resp now later c)))"
  by (simp add: pricesHandler_def Let_def split: prod.splits)

lemma performanceHandler_cache:
  "performance_data (snd (performanceHandler imported historical now later c)) = performance_data c
   \<or> performance_data (snd (performanceHandler imported historical now later c)) =
       cache_set (assetData historical) 3600 later"
  by (simp add: performanceHandler_def Let_def split: option.splits)

lemma serve_performance_data:
  "performance_data (snd (serve cfg req u now c)) = performance_data c
   \<or> performance_data (snd (serve cfg req u now c)) =
       cache_set (assetData (yahoo_historical u)) 3600 (clock_later u)"
proof (cases req)
  case GET_prices
  then show ?thesis
    by (simp add: split_beta pricesHandler_cache fetchers_keep_performance_data)
next
  case GET_performance
  then show ?thesis
    using performanceHandler_cache [of "yahoo_import u" "yahoo_historical u" now "clock_later u" c]
    by (simp add: split_beta)
qed (simp_all add: split_beta newsHandler_def macroNewsHandler_def inflationNewsHandler_def
      goldNewsHandler_def headlinesHandler_def respond_cache fetchers_keep_performance_data)

lemma reachable_performance_data:
  assumes "reachable cfg c" and "performance_data c = Some e"
  shows "\<lparr>name = ''CDs/Savings'', return = Fin 49\<rparr> \<in> set (val e)
       \<and> \<lparr>name = ''Cash (USD)'', return = Fin (- 44)\<rparr> \<in> set (val e)
       \<and> 2 \<le> length (val e)"
  using assms
proof (induction arbitrary: e rule: reachable.induct)
  case start
  then show ?case by (simp add: empty_cache_def)
next
  case (step c req u now r c')
  have c': "c' = snd (serve cfg req u now c)"
    using step.hyps(2) by simp
  from serve_performance_data [of cfg req u now c] show ?case
  proof
    assume "performance_data (snd (serve cfg req u now c)) = performance_data c"
    then show ?thesis
      using step.IH [of e] step.prems c' by simp
  next
    assume "performance_data (snd (serve cfg req u now c)) =
              cache_set (assetData (yahoo_historical u)) 3600 (clock_later u)"
    then have "val e = assetData (yahoo_historical u)"
      using step.prems c' by (auto simp: cache_set_def)
    then show ?thesis
      by (simp add: assetData_synthetic)
  qed
qed

lemma performanceHandler_success:
  assumes "reachable cfg c"
      and "success (fst (performanceHandler imported historical now later c))"
  shows "\<lparr>name = ''CDs/Savings'', return = Fin 49\<rparr>
           \<in> set (payload (fst (performanceHandler imported historical now later c)))
       \<and> \<lparr>name = ''Cash (USD)'', return = Fin (- 44)\<rparr>
           \<in> set (payload (fst (performanceHandler imported historical now later c)))
       \<and> 2 \<le> length (payload (fst (performanceHandler imported historical now later c)))"
proof (cases "cache_get (performance_data c) now")
  case None
  then show ?thesis
    using assms(2) by (cases imported) (simp_all add: performanceHandler_def Let_def assetData_synthetic)
next
  case (Some cached)
  then obtain e where e: "performance_data c = Some e" "val e = cached"
    by (auto simp: cache_get_def split: option.splits if_splits)
  show ?thesis
    using reachable_performance_data [OF assms(1) e(1)] Some e(2)
    by (simp add: performanceHandler_def)
qed

lemma example_down_serve:
  "serve example_config GET_performance example_down 0 empty_cache =
     (Performance \<lparr>success = True,
        payload = [\<lparr>name = ''CDs/Savings'', return = Fin 49\<rparr>,
                   \<lparr>name = ''Cash (USD)'', return = Fin (- 44)\<rparr>],
        error = None, lastUpdated = None, warnings = None\<rparr>,
      empty_cache\<lparr>performance_data :=
        cache_set [\<lparr>name = ''CDs/Savings'', return = Fin 49\<rparr>,
                   \<lparr>name = ''Cash (USD)'', return = Fin (- 44)\<rparr>] 3600 1\<rparr>)"
proof -
  have "assetData (\<lambda>s. Inl (Error ''Not Found'')) =
          [\<lparr>name = ''CDs/Savings'', return = Fin 49\<rparr>, \<lparr>name = ''Cash (USD)'', return = Fin (- 44)\<rparr>]"
    by (rule assetData_all_failed) simp
  then show ?thesis
    by (simp add: example_down_def performanceHandler_fresh empty_cache_misses)
qed

text \<open>
  Claim C9. A rejected history fetch and a history of fewer than two bars both give
  \<open>null\<close>, so once the Yahoo module is loaded the handler answers with
  \<open>success: true\<close> whatever the six fetches do; when all of them fail the list is the
  two fixed records. In every cache the server can reach, a \<open>success: true\<close> answer of
  \<open>/api/performance\<close>, fresh or cached, contains \<open>CDs/Savings\<close> with 49 and
  \<open>Cash (USD)\<close> with -44 and has at least two entries.
\<close>

theorem performance_always_has_synthetic_records:
  "(\<forall>s n. (\<exists>e. historical s = Inl e) \<or> (\<exists>h. historical s = Inr h \<and> length h < 2) \<longrightarrow>
       fetchHistory historical s n = None)
   \<and> (cache_get (performance_data c) now = None \<longrightarrow>
        success (fst (performanceHandler None historical now later c)))
   \<and> ((\<forall>s. (\<exists>e. historical s = Inl e) \<or> (\<exists>h. historical s = Inr h \<and> length h < 2)) \<longrightarrow>
        assetData historical =
          [\<lparr>name = ''CDs/Savings'', return = Fin 49\<rparr>, \<lparr>name = ''Cash (USD)'', return = Fin (- 44)\<rparr>])
   \<and> (\<forall>u r c'. reachable cfg c \<and> serve cfg GET_performance u now c = (Performance r, c')
          \<and> success r \<longrightarrow>
        \<lparr>name = ''CDs/Savings'', return = Fin 49\<rparr> \<in> set (payload r)
        \<and> \<lparr>name = ''Cash (USD)'', return = Fin (- 44)\<rparr> \<in> set (payload r)
        \<and> 2 \<le> length (payload r))"
proof (intro conjI allI impI)
  show "fetchHistory historical s n = None"
    if "(\<exists>e. historical s = Inl e) \<or> (\<exists>h. historical s = Inr h \<and> length h < 2)" for s n
    using that fetchHistory_failed fetchHistory_short by blast
  show "success (fst (performanceHandler None historical now later c))"
    if "cache_get (performance_data c) now = None"
    using that by (simp add: performanceHandler_fresh)
  show "assetData historical =
          [\<lparr>name = ''CDs/Savings'', return = Fin 49\<rparr>, \<lparr>name = ''Cash (USD)'', return = Fin (- 44)\<rparr>]"
    if "\<forall>s. (\<exists>e. historical s = Inl e) \<or> (\<exists>h. historical s = Inr h \<and> length h < 2)"
    using that by (rule assetData_all_failed)
next
  fix u r c'
  assume a: "reachable cfg c \<and> serve cfg GET_performance u now c = (Performance r, c') \<and> success r"
  then have r: "r = fst (performanceHandler (yahoo_import u) (yahoo_historical u) now (clock_later u) c)"
    by (auto simp: split_beta)
  have "\<lparr>name = ''CDs/Savings'', return = Fin 49\<rparr> \<in> set (payload r)
        \<and> \<lparr>name = ''Cash (USD)'', return = Fin (- 44)\<rparr> \<in> set (payload r)
        \<and> 2 \<le> length (payload r)"
    unfolding r using a performanceHandler_success [of cfg c] r by blast
  then show "\<lparr>name = ''CDs/Savings'', return = Fin 49\<rparr> \<in> set (payload r)"
    and "\<lparr>name = ''Cash (USD)'', return = Fin (- 44)\<rparr> \<in> set (payload r)"
    and "2 \<le> length (payload r)"
    by simp_all
qed

theorem performance_always_has_synthetic_records_witness:
  "reachable example_config empty_cache
   \<and> serve example_config GET_performance example_down 0 empty_cache =
     (Performance \<lparr>success = True,
        payload = [\<lparr>name = ''CDs/Savings'', return = Fin 49\<rparr>,
                   \<lparr>name = ''Cash (USD)'', return = Fin (- 44)\<rparr>],
        error = None, lastUpdated = None, warnings = None\<rparr>,
      empty_cache\<lparr>performance_data :=
        cache_set [\<lparr>name = ''CDs/Savings'', return = Fin 49\<rparr>,
                   \<lparr>name = ''Cash (USD)'', return = Fin (- 44)\<rparr>] 3600 1\<rparr>)
   \<and> 2 \<le> length [\<lparr>name = ''CDs/Savings'', return = Fin 49\<rparr>,
                   \<lparr>name = ''Cash (USD)'', return = Fin (- 44)\<rparr>]
   \<and> fetchHistory example_historical ''^DJI'' ''Dow Jones'' = None"
proof -
  note t = performance_always_has_synthetic_records
      [of example_historical empty_cache 0 1 example_config]
  have short: "\<forall>s n. (\<exists>e. example_historical s = Inl e)
          \<or> (\<exists>h. example_historical s = Inr h \<and> length h < 2) \<longrightarrow>
       fetchHistory example_historical s n = None"
    using t by - (elim conjE, assumption)
  have served: "\<forall>u r c'. reachable example_config empty_cache
          \<and> serve example_config GET_performance u 0 empty_cache = (Performance r, c')
          \<and> success r \<longrightarrow>
        \<lparr>name = ''CDs/Savings'', return = Fin 49\<rparr> \<in> set (payload r)
        \<and> \<lparr>name = ''Cash (USD)'', return = Fin (- 44)\<rparr> \<in> set (payload r)
        \<and> 2 \<le> length (payload r)"
    using t by - (elim conjE, assumption)
  have "2 \<le> length [\<lparr>name = ''CDs/Savings'', return = Fin 49\<rparr>,
                   \<lparr>name = ''Cash (USD)'', return = Fin (- 44)\<rparr>]"
    using served example_down_serve reachable.start [of example_config] by fastforce
  moreover have "fetchHistory example_historical ''^DJI'' ''Dow Jones'' = None"
    using short by (simp add: example_historical_def)
  ultimately show ?thesis
    using example_down_serve reachable.start [of example_config] by blast
qed

section \<open>The health endpoint\<close>

text \<open>
  Claim C8. \<open>GET /api/health\<close> answers with \<open>status: "ok"\<close>, the time of the
  request and the configured cache TTL, whatever the cache holds and whatever the
  outside world would answer; it leaves the cache as it was.
\<close>

theorem health_always_ok:
  "status (healthHandler cfg now) = ''ok''
   \<and> fst (serve cfg GET_health u now c) =
       Health \<lparr>status = ''ok'', timestamp = now, cacheTTL = CACHE_TTL cfg\<rparr>
   \<and> snd (serve cfg GET_health u now c) = c
   \<and> fst (serve cfg GET_health u now c) = fst (serve cfg GET_health u' now c')"
proof (intro conjI)
  show "status (healthHandler cfg now) = ''ok''"
    by (simp add: healthHandler_def)
  show "fst (serve cfg GET_health u now c) =
       Health \<lparr>status = ''ok'', timestamp = now, cacheTTL = CACHE_TTL cfg\<rparr>"
    by (simp add: healthHandler_def)
  show "snd (serve cfg GET_health u now c) = c"
    by simp
  show "fst (serve cfg GET_health u now c) = fst (serve cfg GET_health u' now c')"
    by simp
qed

end
